theory Spec2Isabelle
  imports Main "HOL-Library.Sublist"
begin

section \<open>Python strings\<close>

text \<open>
  A Python \<open>str\<close> is a sequence of Unicode code points: \<open>len\<close>, slicing and the
  \<open>re\<close> module all count code points.  A code point is a natural number here and a
  string a list of them; \<open>u\<close> turns an ASCII literal into such a string, and the
  characters of the source that are not ASCII are written by their code point.
\<close>

type_synonym str = "nat list"

definition u :: "string \<Rightarrow> str" where
  "u s = map of_char s"

text \<open>
  \<open>str.isspace\<close> of one character, which is also what \<open>\s\<close> matches in a \<open>str\<close> pattern
  and what \<open>str.strip()\<close> removes (CPython's \<open>_PyUnicode_IsWhitespace\<close>).
\<close>

definition isspace :: "nat \<Rightarrow> bool" where
  "isspace c \<longleftrightarrow>
     (9 \<le> c \<and> c \<le> 13) \<or> (28 \<le> c \<and> c \<le> 32) \<or> c = 133 \<or> c = 160 \<or> c = 5760 \<or>
     (8192 \<le> c \<and> c \<le> 8202) \<or> c = 8232 \<or> c = 8233 \<or> c = 8239 \<or> c = 8287 \<or>
     c = 12288"

definition strip :: "str \<Rightarrow> str" where
  "strip s = rev (dropWhile isspace (rev (dropWhile isspace s)))"

text \<open>\<open>sub in s\<close> on strings is \<^const>\<open>sublist\<close>; \<open>s.startswith(p)\<close> is \<^const>\<open>prefix\<close>.\<close>


text \<open>
  \<open>s.split(sep)\<close> for a separator of one character: the fields between the
  separators, one more than there are separators (so the empty string gives one
  empty field).
\<close>

fun split :: "nat \<Rightarrow> str \<Rightarrow> str list" where
  "split sep [] = [] # []"
| "split sep (c # cs) =
     (if c = sep then [] # split sep cs
      else (case split sep cs of [] \<Rightarrow> [c] # [] | f # fs \<Rightarrow> (c # f) # fs))"

text \<open>\<open>str(n)\<close> of an integer, as an f-string prints it.\<close>

fun str_nat :: "nat \<Rightarrow> str" where
  "str_nat n = (if n < 10 then [48 + n] else str_nat (n div 10) @ [48 + n mod 10])"

definition str_int :: "int \<Rightarrow> str" where
  "str_int i = (if i < 0 then 45 # str_nat (nat (- i)) else str_nat (nat i))"

section \<open>The URL preview suppressor\<close>

text \<open>
  The pattern \<open>(https?://[^\s<>]+)\<close>.  \<open>url_char\<close> is the class \<open>[^\s<>]\<close>.
  \<open>scheme_len\<close> is the length of what \<open>https?://\<close> matches at the start of the text;
  the optional \<open>s\<close> is tried first, and the two alternatives exclude each other.
  \<open>match_url\<close> is a match of the whole pattern at the start of the text: the greedy
  \<open>+\<close> takes the longest run of class characters, at least one, and nothing follows
  it in the pattern, so there is no backtracking.  It returns the matched text and
  the rest.
\<close>

definition url_char :: "nat \<Rightarrow> bool" where
  "url_char c \<longleftrightarrow> \<not> isspace c \<and> c \<noteq> 60 \<and> c \<noteq> 62"

definition scheme_len :: "str \<Rightarrow> nat option" where
  "scheme_len s =
     (if prefix (u ''https://'') s then Some 8
      else if prefix (u ''http://'') s then Some 7
      else None)"

definition match_url :: "str \<Rightarrow> (str \<times> str) option" where
  "match_url s =
     (case scheme_len s of
        None \<Rightarrow> None
      | Some n \<Rightarrow>
          (let body = takeWhile url_char (drop n s) in
           if body = [] then None
           else Some (take n s @ body, dropWhile url_char (drop n s))))"

text \<open>
  \<open>re.sub(url_pattern, wrap_url, text)\<close>: the text is scanned from the left; where the
  pattern matches, the match is replaced by \<open>wrap_url\<close> of it, which is
  \<open><\<close> + the match + \<open>>\<close>, and the scan goes on after the match; elsewhere the
  character is copied.
\<close>

function re_sub_wrap :: "str \<Rightarrow> str" where
  "re_sub_wrap [] = []"
| "re_sub_wrap (c # cs) =
     (case match_url (c # cs) of
        Some (m, r) \<Rightarrow> 60 # m @ 62 # re_sub_wrap r
      | None \<Rightarrow> c # re_sub_wrap cs)"
  by pat_completeness auto
termination
proof (relation "measure length")
  fix c cs m r x
  assume a: "match_url (c # cs) = Some x" and x: "(m, r) = x"
  obtain n where n: "scheme_len (c # cs) = Some n"
    using a by (auto simp: match_url_def split: option.splits)
  have "0 < n \<and> n \<le> length (c # cs)"
    using n by (auto simp: scheme_len_def u_def prefix_def split: if_splits)
  moreover have "r = dropWhile url_char (drop n (c # cs))"
    using a n x by (auto simp: match_url_def Let_def split: if_splits)
  moreover have "length (dropWhile url_char (drop n (c # cs))) \<le> length (drop n (c # cs))"
    by (rule length_dropWhile_le)
  ultimately have "length r < length (c # cs)"
    by (simp add: less_le_trans) arith
  then show "(r, c # cs) \<in> measure length" by simp
qed simp_all

definition suppress_url_previews :: "str \<Rightarrow> str" where
  "suppress_url_previews text = (if text = [] then text else re_sub_wrap text)"

section \<open>The link rewriters\<close>

text \<open>
  What a command does to the interaction: \<open>send_message(content)\<close>, public unless
  \<open>ephemeral=True\<close>.
\<close>

datatype reply = Public str | Ephemeral str

definition invalid_url_text :: str where
  "invalid_url_text = u ''URL tan invalida como vos.''"



section \<open>Exceptions, the environment and effects\<close>

text \<open>
  An exception raised by a call the program makes is an instance of a subclass of
  \<open>Exception\<close>.  The handlers of the source tell three kinds apart by class:
  \<open>asyncio.TimeoutError\<close>, \<open>discord.HTTPException\<close> (with its \<open>status\<close> and \<open>text\<close>)
  and the rest.  Each carries what the handlers print: \<open>type(e).__name__\<close> and
  \<open>str(e)\<close>.  Cancellation of the task and interrupts are not \<open>Exception\<close>s and
  belong to the scheduler; they are outside this model.
\<close>

datatype exn =
    AsyncioTimeoutError str
  | HTTPException str int str str
  | OtherException str str

fun type_name :: "exn \<Rightarrow> str" where
  "type_name (AsyncioTimeoutError m) = u ''TimeoutError''"
| "type_name (HTTPException n status txt m) = n"
| "type_name (OtherException n m) = n"

fun str_exn :: "exn \<Rightarrow> str" where
  "str_exn (AsyncioTimeoutError m) = m"
| "str_exn (HTTPException n status txt m) = m"
| "str_exn (OtherException n m) = m"

text \<open>
  The environment of one invocation: the Unicode tables and library functions the
  code relies on, and the outcome of every call that leaves the program.  A call
  that can raise has a result in \<open>exn + 'a\<close> (or \<open>exn option\<close> when it returns
  nothing), \<open>Inl\<close> and \<open>Some\<close> being the exception raised.
\<close>

type_synonym decoded = "exn + str"

record env =
  re_word :: "nat \<Rightarrow> bool"  \<comment> \<open>the class \<open>\w\<close> of a \<open>str\<close> pattern\<close>
  re_digit :: "nat \<Rightarrow> bool"  \<comment> \<open>the class \<open>\d\<close> of a \<open>str\<close> pattern\<close>
  path_join :: "str \<Rightarrow> str \<Rightarrow> str"  \<comment> \<open>\<open>str(Path(d) / name)\<close>\<close>
  path_name :: "str \<Rightarrow> str"  \<comment> \<open>\<open>Path(p).name\<close>\<close>
  fmt_mb :: "nat \<Rightarrow> str"  \<comment> \<open>\<open>f"{size / (1024 * 1024):.1f}"\<close>\<close>
  send_message :: "exn option"  \<comment> \<open>\<open>interaction.response.send_message\<close>\<close>
  response_defer :: "exn option"  \<comment> \<open>\<open>interaction.response.defer\<close>\<close>
  mkdtemp :: "exn + str"  \<comment> \<open>\<open>tempfile.mkdtemp()\<close>\<close>
  create_subprocess_exec :: "str list \<Rightarrow> exn option"
  communicate :: "exn + (int \<times> decoded \<times> decoded)"
    \<comment> \<open>\<open>wait_for(process.communicate(), timeout=60)\<close>, then the return code and
        \<open>decode()\<close> of each stream; \<open>Inl (AsyncioTimeoutError m)\<close> when 60 seconds
        pass before the child exits\<close>
  glob :: "str \<Rightarrow> str \<Rightarrow> exn + str list"  \<comment> \<open>\<open>list(Path(d).glob(pattern))\<close>\<close>
  fetch_stat :: "str \<Rightarrow> exn + nat"  \<comment> \<open>\<open>stat().st_size\<close> in the fetcher\<close>
  stat :: "str \<Rightarrow> exn + nat"  \<comment> \<open>\<open>stat().st_size\<close> in the command\<close>
  open_rb :: "str \<Rightarrow> exn option"  \<comment> \<open>\<open>open(path, "rb")\<close>\<close>
  followup_send :: "nat \<Rightarrow> exn option"
    \<comment> \<open>\<open>interaction.followup.send\<close>, by the number of calls made before\<close>
  rmtree :: "str \<Rightarrow> exn option"  \<comment> \<open>\<open>shutil.rmtree\<close>\<close>

text \<open>The rich embed, and what \<open>followup.send\<close> is called with.\<close>

record embed =
  description :: str
  color :: nat
  author :: "(str \<times> str option) option"  \<comment> \<open>name and \<open>icon_url\<close>\<close>
  footer :: "str option"

datatype message =
    Text str bool  \<comment> \<open>content, \<open>ephemeral\<close>\<close>
  | Upload embed str  \<comment> \<open>\<open>embed\<close> and the \<open>discord.File\<close>, by its file name\<close>

text \<open>
  The effects of an invocation.  The child process runs from the moment it is
  started until it exits; the source sends it no signal anywhere, so only
  \<open>communicate()\<close> returning moves it to \<open>ChildExited\<close>.
\<close>

datatype child_state = NoChild | ChildRunning | ChildExited int

record world =
  tmpdirs :: "str set"  \<comment> \<open>the temporary directories that exist\<close>
  child :: child_state
  replies :: "reply list"  \<comment> \<open>\<open>response.send_message\<close> calls\<close>
  deferred :: bool
  sent :: "(message \<times> bool) list"
    \<comment> \<open>\<open>followup.send\<close> calls in order, and whether each was delivered\<close>
  rmtree_calls :: "str list"

type_synonym 'a io = "world \<Rightarrow> (exn + 'a) \<times> world"

definition ret :: "'a \<Rightarrow> 'a io" where
  "ret x = (\<lambda>w. (Inr x, w))"

definition raise :: "exn \<Rightarrow> 'a io" where
  "raise x = (\<lambda>w. (Inl x, w))"

definition bind :: "'a io \<Rightarrow> ('a \<Rightarrow> 'b io) \<Rightarrow> 'b io" where
  "bind m f = (\<lambda>w. case m w of (Inl x, w') \<Rightarrow> (Inl x, w') | (Inr a, w') \<Rightarrow> f a w')"

text \<open>\<open>try: m except Exception as x: h x\<close>\<close>

definition try_except :: "'a io \<Rightarrow> (exn \<Rightarrow> 'a io) \<Rightarrow> 'a io" where
  "try_except m h = (\<lambda>w. case m w of (Inl x, w') \<Rightarrow> h x w' | (Inr a, w') \<Rightarrow> (Inr a, w'))"

text \<open>
  \<open>try: m finally: f\<close>: \<open>f\<close> runs however \<open>m\<close> ends; an exception of \<open>f\<close>
  replaces the outcome of \<open>m\<close>.
\<close>

definition try_finally :: "'a io \<Rightarrow> unit io \<Rightarrow> 'a io" where
  "try_finally m f =
     (\<lambda>w. case m w of (r, w') \<Rightarrow>
        (case f w' of (Inl x, w'') \<Rightarrow> (Inl x, w'') | (Inr _, w'') \<Rightarrow> (r, w'')))"

text \<open>The calls that leave the program, with their effect on the world.\<close>

definition do_send_message :: "env \<Rightarrow> reply \<Rightarrow> unit io" where
  "do_send_message e r =
     (\<lambda>w. case send_message e of
        Some x \<Rightarrow> (Inl x, w)
      | None \<Rightarrow> (Inr (), w\<lparr>replies := replies w @ [r]\<rparr>))"

definition do_defer :: "env \<Rightarrow> unit io" where
  "do_defer e =
     (\<lambda>w. case response_defer e of Some x \<Rightarrow> (Inl x, w) | None \<Rightarrow> (Inr (), w\<lparr>deferred := True\<rparr>))"

definition do_mkdtemp :: "env \<Rightarrow> str io" where
  "do_mkdtemp e =
     (\<lambda>w. case mkdtemp e of
        Inl x \<Rightarrow> (Inl x, w)
      | Inr d \<Rightarrow> (Inr d, w\<lparr>tmpdirs := insert d (tmpdirs w)\<rparr>))"

definition do_rmtree :: "env \<Rightarrow> str \<Rightarrow> unit io" where
  "do_rmtree e d =
     (\<lambda>w. case rmtree e d of
        Some x \<Rightarrow> (Inl x, w\<lparr>rmtree_calls := rmtree_calls w @ [d]\<rparr>)
      | None \<Rightarrow> (Inr (), w\<lparr>rmtree_calls := rmtree_calls w @ [d], tmpdirs := tmpdirs w - {d}\<rparr>))"

definition do_followup :: "env \<Rightarrow> message \<Rightarrow> unit io" where
  "do_followup e m =
     (\<lambda>w. case followup_send e (length (sent w)) of
        Some x \<Rightarrow> (Inl x, w\<lparr>sent := sent w @ [(m, False)]\<rparr>)
      | None \<Rightarrow> (Inr (), w\<lparr>sent := sent w @ [(m, True)]\<rparr>))"

definition do_spawn :: "env \<Rightarrow> str list \<Rightarrow> unit io" where
  "do_spawn e args =
     (\<lambda>w. case create_subprocess_exec e args of
        Some x \<Rightarrow> (Inl x, w)
      | None \<Rightarrow> (Inr (), w\<lparr>child := ChildRunning\<rparr>))"

definition do_communicate :: "env \<Rightarrow> (int \<times> decoded \<times> decoded) io" where
  "do_communicate e =
     (\<lambda>w. case communicate e of
        Inl x \<Rightarrow> (Inl x, w)
      | Inr (rc, out, err) \<Rightarrow> (Inr (rc, out, err), w\<lparr>child := ChildExited rc\<rparr>))"

definition lift :: "exn + 'a \<Rightarrow> 'a io" where
  "lift r = (\<lambda>w. (r, w))"

section \<open>Extracting the tweet identifier\<close>

text \<open>
  The two patterns
  \<open>(?:twitter\.com|x\.com)/(?:\w+)/status/(\d+)\<close> and
  \<open>(?:twitter\.com|x\.com)/i/(?:web/)?status/(\d+)\<close>.
  The functions below match a pattern at the start of the text and return group 1.
  \<open>\d+\<close> ends the pattern, so it takes the longest run of digits; \<open>\w+\<close> is greedy
  and gives characters back one at a time until the rest of the pattern matches.
\<close>

definition domain_len :: "str \<Rightarrow> nat option" where
  "domain_len s =
     (if prefix (u ''twitter.com'') s then Some 11
      else if prefix (u ''x.com'') s then Some 5
      else None)"

definition digits_group :: "env \<Rightarrow> str \<Rightarrow> str option" where
  "digits_group e s = (let d = takeWhile (re_digit e) s in if d = [] then None else Some d)"

definition status_group :: "env \<Rightarrow> str \<Rightarrow> str option" where
  "status_group e s =
     (if prefix (u ''/status/'') s then digits_group e (drop 8 s) else None)"

fun first_some :: "('a \<Rightarrow> 'b option) \<Rightarrow> 'a list \<Rightarrow> 'b option" where
  "first_some f [] = None"
| "first_some f (x # xs) = (case f x of Some y \<Rightarrow> Some y | None \<Rightarrow> first_some f xs)"

definition match_status :: "env \<Rightarrow> str \<Rightarrow> str option" where
  "match_status e s =
     (case domain_len s of
        None \<Rightarrow> None
      | Some n \<Rightarrow>
          (if prefix (u ''/'') (drop n s) then
             (let r = drop (n + 1) s; k = length (takeWhile (re_word e) r) in
              first_some (\<lambda>j. status_group e (drop j r)) (rev [1..<Suc k]))
           else None))"

definition match_web_status :: "env \<Rightarrow> str \<Rightarrow> str option" where
  "match_web_status e s =
     (case domain_len s of
        None \<Rightarrow> None
      | Some n \<Rightarrow>
          (if prefix (u ''/i/'') (drop n s) then
             (let r = drop (n + 3) s in
              case (if prefix (u ''web/status/'') r then digits_group e (drop 11 r) else None) of
                Some g \<Rightarrow> Some g
              | None \<Rightarrow> (if prefix (u ''status/'') r then digits_group e (drop 7 r) else None))
           else None))"

text \<open>\<open>re.search\<close>: the match at the leftmost position where there is one.\<close>

fun re_search :: "(str \<Rightarrow> 'a option) \<Rightarrow> str \<Rightarrow> 'a option" where
  "re_search m [] = m []"
| "re_search m (c # cs) = (case m (c # cs) of Some g \<Rightarrow> Some g | None \<Rightarrow> re_search m cs)"

definition extract_tweet_id :: "env \<Rightarrow> str \<Rightarrow> str option" where
  "extract_tweet_id e url =
     first_some (\<lambda>pattern. re_search pattern url) [match_status e, match_web_status e]"

section \<open>The video fetcher\<close>

text \<open>
  The result of the fetcher is a Python dictionary with string keys: a map.
  \<open>d[k]\<close> raises \<open>KeyError\<close> on a missing key, \<open>d.get(k, default)\<close> does not.
\<close>

type_synonym dict = "string \<rightharpoonup> str"

definition getitem :: "dict \<Rightarrow> string \<Rightarrow> exn + str" where
  "getitem d k =
     (case d k of
        None \<Rightarrow> Inl (OtherException (u ''KeyError'') (u [CHR 0x27] @ u k @ u [CHR 0x27]))
      | Some v \<Rightarrow> Inr v)"

definition get_default :: "dict \<Rightarrow> string \<Rightarrow> str \<Rightarrow> str" where
  "get_default d k dflt = (case d k of None \<Rightarrow> dflt | Some v \<Rightarrow> v)"

definition error_dict :: "str \<Rightarrow> dict" where
  "error_dict error_msg = [''error'' \<mapsto> error_msg]"

definition sep :: nat where
  "sep = 9247"

definition format_pref :: str where
  "format_pref = u ''http-2176/http-832/http-288/best[protocol*=https][ext=mp4]/best''"

definition cmd_args :: "env \<Rightarrow> str \<Rightarrow> str \<Rightarrow> str \<Rightarrow> str list" where
  "cmd_args e url output_dir tweet_id =
     [u ''yt-dlp'',
      u ''-f'', format_pref,
      u ''--no-playlist'',
      u ''--print'',
      u ''after_video:%(url)s'' @ [sep] @ u ''%(title)s'' @ [sep] @ u ''%(thumbnail)s'' @ [sep] @
        u ''%(uploader)s'' @ [sep] @ u ''%(uploader_id)s'' @ [sep] @ u ''%(description)s'' @
        [sep] @ u ''%(upload_date)s'',
      u ''-o'', path_join e output_dir (tweet_id @ u ''.%(ext)s''),
      url]"

definition no_id_msg :: str where
  "no_id_msg = u ''No se pudo extraer el ID del tweet de la URL''"

definition exit_code_msg :: "int \<Rightarrow> str \<Rightarrow> str" where
  "exit_code_msg returncode stderr_text =
     u ''yt-dlp fall'' @ [243] @ u '' con c'' @ [243] @ u ''digo '' @ str_int returncode @
     u ''. Error: '' @ stderr_text"

definition unexpected_output_msg :: "str list \<Rightarrow> str \<Rightarrow> str" where
  "unexpected_output_msg parts output =
     u ''Output de yt-dlp inesperado (esperaba 7 partes, obtuvo '' @ str_nat (length parts) @
     u ''): '' @ take 200 output"

definition no_file_msg :: "str \<Rightarrow> str" where
  "no_file_msg output_dir =
     u ''No se encontr'' @ [243] @ u '' archivo de video descargado en '' @ output_dir"

definition timeout_msg :: str where
  "timeout_msg = u ''Timeout (60s) al descargar video de Twitter''"

definition exception_msg :: "exn \<Rightarrow> str" where
  "exception_msg x =
     u ''Excepci'' @ [243] @ u ''n al descargar video: '' @ type_name x @ u '': '' @ str_exn x"

text \<open>
  The assignment of \<open>parts\<close> to seven names: \<open>ValueError\<close> unless there are exactly
  seven.
\<close>

definition unpack7 :: "str list \<Rightarrow> exn + (str \<times> str \<times> str \<times> str \<times> str \<times> str \<times> str)" where
  "unpack7 parts =
     (case parts of
        [a, b, c, d, f, g, h] \<Rightarrow> Inr (a, b, c, d, f, g, h)
      | _ \<Rightarrow>
          Inl (OtherException (u ''ValueError'')
            (if 7 < length parts then u ''too many values to unpack (expected 7)''
             else u ''not enough values to unpack (expected 7, got '' @
                  str_nat (length parts) @ u '')'')))"

text \<open>The body of the \<open>try\<close> of \<open>download_twitter_video\<close>.\<close>

definition fetch_body :: "env \<Rightarrow> str \<Rightarrow> str \<Rightarrow> str \<Rightarrow> dict io" where
  "fetch_body e url output_dir tweet_id =
     bind (do_spawn e (cmd_args e url output_dir tweet_id)) (\<lambda>_.
     bind (do_communicate e) (\<lambda>(returncode, out, err).
     bind (lift out) (\<lambda>stdout_raw.
     bind (lift err) (\<lambda>stderr_raw.
       let stdout_text = strip stdout_raw; stderr_text = strip stderr_raw in
       if returncode \<noteq> 0 then ret (error_dict (exit_code_msg returncode stderr_text))
       else
         let output = stdout_text; parts = split sep output in
         if length parts < 7 then ret (error_dict (unexpected_output_msg parts output))
         else
           bind (lift (unpack7 parts))
             (\<lambda>(video_url, title, thumbnail, uploader, uploader_id, description, upload_date).
           bind (lift (glob e output_dir (tweet_id @ u ''.*''))) (\<lambda>video_files.
             case video_files of
               [] \<Rightarrow>
                 bind (lift (glob e output_dir (u ''*''))) (\<lambda>all_files.
                   ret (error_dict (no_file_msg output_dir)))
             | video_path # _ \<Rightarrow>
                 bind (lift (fetch_stat e video_path)) (\<lambda>file_size.
                   ret [''file_path'' \<mapsto> video_path,
                        ''title'' \<mapsto> strip title,
                        ''thumbnail'' \<mapsto> strip thumbnail,
                        ''uploader'' \<mapsto> strip uploader,
                        ''uploader_id'' \<mapsto> strip uploader_id,
                        ''description'' \<mapsto> strip description,
                        ''upload_date'' \<mapsto> strip upload_date])))))))"

definition download_twitter_video :: "env \<Rightarrow> str \<Rightarrow> str \<Rightarrow> dict io" where
  "download_twitter_video e url output_dir =
     (case extract_tweet_id e url of
        None \<Rightarrow> ret (error_dict no_id_msg)
      | Some tweet_id \<Rightarrow>
          if tweet_id = [] then ret (error_dict no_id_msg)
          else
            try_except (fetch_body e url output_dir tweet_id)
              (\<lambda>x. case x of
                 AsyncioTimeoutError m \<Rightarrow> ret (error_dict timeout_msg)
               | _ \<Rightarrow> ret (error_dict (exception_msg x))))"

section \<open>The \<open>/vx\<close> command\<close>

definition max_size :: nat where
  "max_size = 50 * 1024 * 1024"

definition code_block :: "str \<Rightarrow> str \<Rightarrow> str" where
  "code_block title error_msg =
     [10060] @ u '' **'' @ title @ u '':**'' @ [10] @ u ''```'' @ [10] @ take 1800 error_msg @
     [10] @ u ''```''"

definition download_error_text :: "str \<Rightarrow> str" where
  "download_error_text error_msg = code_block (u ''Error al descargar video'') error_msg"

definition too_large_text :: "env \<Rightarrow> nat \<Rightarrow> str" where
  "too_large_text e file_size =
     [10060] @ u '' El video es demasiado grande ('' @ fmt_mb e file_size @
     u ''MB). Discord tiene un l'' @ [237] @ u ''mite de 50MB.''"

definition http_error_text :: "int \<Rightarrow> str \<Rightarrow> str" where
  "http_error_text status txt =
     code_block (u ''Error al subir el video a Discord'')
       (u ''Error HTTP de Discord: '' @ str_int status @ u '' - '' @ txt)"

definition unexpected_error_text :: "exn \<Rightarrow> str" where
  "unexpected_error_text x =
     code_block (u ''Error al procesar el video'')
       (u ''Excepci'' @ [243] @ u ''n inesperada: '' @ type_name x @ u '': '' @ str_exn x) @
     [10] @ u ''Revis'' @ [225] @ u '' los logs para m'' @ [225] @ u ''s detalles.''"

text \<open>Python's \<open>a or b\<close> on strings.\<close>

definition or_else :: "str \<Rightarrow> str \<Rightarrow> str" where
  "or_else a b = (if a = [] then b else a)"

text \<open>
  The embed: the author's name and handle, the description cut to 280 characters
  and passed through \<open>suppress_url_previews\<close>, and the footer.
\<close>

definition shown_description :: "dict \<Rightarrow> str" where
  "shown_description video_data =
     (let description = strip (get_default video_data ''description'' []);
          description = (if description \<noteq> [] \<and> 280 < length description
                         then take 280 description else description);
          description = (if description \<noteq> [] then suppress_url_previews description
                         else description)
      in or_else description (u ''Video de X''))"

definition shown_author :: "dict \<Rightarrow> (str \<times> str option) option" where
  "shown_author video_data =
     (let author_name = or_else (strip (get_default video_data ''uploader'' []))
                          (u ''Desconocido'');
          author_handle = strip (get_default video_data ''uploader_id'' []);
          display_handle = (if author_handle \<noteq> [] then u ''@'' @ author_handle else [])
      in if author_name \<noteq> [] \<and> author_handle \<noteq> [] then
           Some (author_name @ u '' ('' @ display_handle @ u '')'',
                 Some (u ''https://unavatar.io/x/'' @ author_handle))
         else if author_name \<noteq> [] then Some (author_name, None)
         else None)"

definition build_embed :: "env \<Rightarrow> dict \<Rightarrow> nat \<Rightarrow> embed" where
  "build_embed e video_data file_size =
     \<lparr>description = shown_description video_data,
      color = 0x1DA1F2,
      author = shown_author video_data,
      footer = Some (u ''Video '' @ [8226] @ u '' '' @ fmt_mb e file_size @ u ''MB'')\<rparr>"

text \<open>
  The upload, in its own \<open>try\<close>: \<open>discord.HTTPException\<close> is reported to the user,
  every other exception goes on to the handler of the command.
\<close>

definition upload :: "env \<Rightarrow> str \<Rightarrow> embed \<Rightarrow> unit io" where
  "upload e video_path emb =
     try_except
       (bind (lift (case open_rb e video_path of Some x \<Rightarrow> Inl x | None \<Rightarrow> Inr ())) (\<lambda>_.
          do_followup e (Upload emb (path_name e video_path))))
       (\<lambda>x. case x of
          HTTPException n status txt m \<Rightarrow>
            do_followup e (Text (http_error_text status txt) True)
        | _ \<Rightarrow> raise x)"

text \<open>The body of the \<open>try\<close> of \<open>replace_twitter\<close>.\<close>

definition relay_body :: "env \<Rightarrow> str \<Rightarrow> str \<Rightarrow> unit io" where
  "relay_body e url temp_dir =
     bind (download_twitter_video e url temp_dir) (\<lambda>video_data.
       if video_data ''error'' \<noteq> None then
         bind (lift (getitem video_data ''error'')) (\<lambda>error_msg.
           do_followup e (Text (download_error_text error_msg) True))
       else
         bind (lift (getitem video_data ''file_path'')) (\<lambda>video_path.
         bind (lift (stat e video_path)) (\<lambda>file_size.
           if max_size < file_size then do_followup e (Text (too_large_text e file_size) True)
           else upload e video_path (build_embed e video_data file_size))))"

definition cleanup :: "env \<Rightarrow> str \<Rightarrow> unit io" where
  "cleanup e temp_dir = try_except (do_rmtree e temp_dir) (\<lambda>x. ret ())"

text \<open>
  The \<open>try\<close> of the command with its \<open>except Exception\<close> clause around a body: the
  exception is reported to the user, and an exception of that report is only
  logged.
\<close>

definition guarded :: "env \<Rightarrow> unit io \<Rightarrow> unit io" where
  "guarded e m =
     try_except m
       (\<lambda>x. try_except (do_followup e (Text (unexpected_error_text x) True))
              (\<lambda>send_error. ret ()))"

definition replace_twitter :: "env \<Rightarrow> str \<Rightarrow> unit io" where
  "replace_twitter e url =
     (if \<not> (sublist (u ''twitter.com'') url \<or> sublist (u ''x.com'') url) then
        do_send_message e (Ephemeral invalid_url_text)
      else
        bind (do_defer e) (\<lambda>_.
        bind (do_mkdtemp e) (\<lambda>temp_dir.
          try_finally (guarded e (relay_body e url temp_dir)) (cleanup e temp_dir))))"

section \<open>Notions the properties are stated with\<close>

text \<open>
  A URL, as the suppressor's contract words it: the scheme \<open>http://\<close> or
  \<open>https://\<close> followed by a non-empty body without whitespace and without angle
  brackets.
\<close>

definition is_url :: "str \<Rightarrow> bool" where
  "is_url m \<longleftrightarrow>
     (prefix (u ''http://'') m \<and> 7 < length m \<and> list_all url_char (drop 7 m)) \<or>
     (prefix (u ''https://'') m \<and> 8 < length m \<and> list_all url_char (drop 8 m))"


text \<open>The keys of the dictionary of a successful fetch.\<close>

definition success_keys :: "string set" where
  "success_keys =
     {''file_path'', ''title'', ''thumbnail'', ''uploader'', ''uploader_id'', ''description'',
      ''upload_date''}"

text \<open>
  The uploads among the calls of \<open>followup.send\<close>: the embed and the file name of
  each call that carries a file, delivered or not.
\<close>

definition uploads :: "world \<Rightarrow> (embed \<times> str) list" where
  "uploads w =
     concat (map (\<lambda>(m, ok). case m of Upload emb n \<Rightarrow> [(emb, n)] | Text t b \<Rightarrow> []) (sent w))"

text \<open>
  A sample environment, in which every call succeeds: ASCII tables for the two
  character classes, POSIX paths, the size in MiB rounded to one decimal (half to
  even, as the format \<open>.1f\<close> does on a size below \<open>2 ^ 53\<close>), a downloader that
  prints a line of seven fields and leaves a file of 3 MiB.
\<close>

definition fmt_1f :: "nat \<Rightarrow> str" where
  "fmt_1f n =
     (let q = n * 10 div 1048576; r = n * 10 mod 1048576;
          t = (if 1048576 < 2 * r \<or> (2 * r = 1048576 \<and> odd q) then q + 1 else q)
      in str_nat (t div 10) @ u ''.'' @ str_nat (t mod 10))"

definition sample_stdout :: str where
  "sample_stdout =
     u ''https://video.twimg.com/v.mp4'' @ [sep] @ u ''A title'' @ [sep] @
     u ''https://pbs.twimg.com/t.jpg'' @ [sep] @ u ''Ana'' @ [sep] @ u ''ana_x'' @ [sep] @
     u ''look https://t.co/abc now'' @ [sep] @ u ''20240101'' @ [10]"

definition env0 :: env where
  "env0 =
     \<lparr>re_word = (\<lambda>c. c = 95 \<or> (48 \<le> c \<and> c \<le> 57) \<or> (65 \<le> c \<and> c \<le> 90) \<or> (97 \<le> c \<and> c \<le> 122)),
      re_digit = (\<lambda>c. 48 \<le> c \<and> c \<le> 57),
      path_join = (\<lambda>d n. d @ u ''/'' @ n),
      path_name = (\<lambda>p. rev (takeWhile (\<lambda>c. c \<noteq> 47) (rev p))),
      fmt_mb = fmt_1f,
      send_message = None,
      response_defer = None,
      mkdtemp = Inr (u ''/tmp/tmpq1''),
      create_subprocess_exec = (\<lambda>args. None),
      communicate = Inr (0, Inr sample_stdout, Inr []),
      glob = (\<lambda>d pat. Inr [d @ u ''/123456.mp4'']),
      fetch_stat = (\<lambda>p. Inr 3145728),
      stat = (\<lambda>p. Inr 3145728),
      open_rb = (\<lambda>p. None),
      followup_send = (\<lambda>k. None),
      rmtree = (\<lambda>d. None)\<rparr>"

definition url0 :: str where
  "url0 = u ''https://x.com/user/status/123456''"

definition w0 :: world where
  "w0 = \<lparr>tmpdirs = {}, child = NoChild, replies = [], deferred = False, sent = [],
          rmtree_calls = []\<rparr>"

definition dir0 :: str where
  "dir0 = u ''/tmp/tmpq1''"


text \<open>Variants of the sample environment, one for each way a run can go.\<close>

definition env_timeout :: env where
  "env_timeout = env0\<lparr>communicate := Inl (AsyncioTimeoutError [])\<rparr>"

definition env_exit1 :: env where
  "env_exit1 =
     env0\<lparr>communicate := Inr (1, Inr [], Inr (u ''ERROR: No video could be found''))\<rparr>"

definition env_short :: env where
  "env_short = env0\<lparr>communicate := Inr (0, Inr (u ''NA''), Inr [])\<rparr>"

definition long_stdout :: str where
  "long_stdout =
     u ''https://video.twimg.com/v.mp4'' @ [sep] @ u ''A title'' @ [sep] @
     u ''https://pbs.twimg.com/t.jpg'' @ [sep] @ u ''Ana'' @ [sep] @ u ''ana_x'' @ [sep] @
     u ''a '' @ [sep] @ u '' b'' @ [sep] @ u ''20240101'' @ [10]"

definition env_long :: env where
  "env_long = env0\<lparr>communicate := Inr (0, Inr long_stdout, Inr [])\<rparr>"

definition env_nofile :: env where
  "env_nofile = env0\<lparr>glob := (\<lambda>d pat. Inr [])\<rparr>"

definition env_nospawn :: env where
  "env_nospawn =
     env0\<lparr>create_subprocess_exec :=
       (\<lambda>args. Some (OtherException (u ''FileNotFoundError'')
          (u ''[Errno 2] No such file or directory'')))\<rparr>"

definition env_rmtree_fails :: env where
  "env_rmtree_fails =
     env0\<lparr>rmtree :=
       (\<lambda>d. Some (OtherException (u ''PermissionError'') (u ''[Errno 13] Permission denied'')))\<rparr>"

definition env_at_limit :: env where
  "env_at_limit = env0\<lparr>stat := (\<lambda>p. Inr max_size)\<rparr>"

definition env_over_limit :: env where
  "env_over_limit = env0\<lparr>stat := (\<lambda>p. Inr (max_size + 1))\<rparr>"

definition stdout_no_uploader :: str where
  "stdout_no_uploader =
     u ''https://video.twimg.com/v.mp4'' @ [sep] @ u ''A title'' @ [sep] @
     u ''https://pbs.twimg.com/t.jpg'' @ [sep] @ [sep] @ u ''ana_x'' @ [sep] @
     u ''look https://t.co/abc now'' @ [sep] @ u ''20240101'' @ [10]"

definition env_no_uploader :: env where
  "env_no_uploader = env0\<lparr>communicate := Inr (0, Inr stdout_no_uploader, Inr [])\<rparr>"

definition stdout_no_description :: str where
  "stdout_no_description =
     u ''https://video.twimg.com/v.mp4'' @ [sep] @ u ''A title'' @ [sep] @
     u ''https://pbs.twimg.com/t.jpg'' @ [sep] @ u ''Ana'' @ [sep] @ u ''ana_x'' @ [sep] @
     [sep] @ u ''20240101'' @ [10]"

definition env_no_description :: env where
  "env_no_description = env0\<lparr>communicate := Inr (0, Inr stdout_no_description, Inr [])\<rparr>"

text \<open>The dictionary the fetcher returns in the sample environment.\<close>

definition sample_record :: dict where
  "sample_record =
     [''file_path'' \<mapsto> dir0 @ u ''/123456.mp4'', ''title'' \<mapsto> u ''A title'',
      ''thumbnail'' \<mapsto> u ''https://pbs.twimg.com/t.jpg'', ''uploader'' \<mapsto> u ''Ana'',
      ''uploader_id'' \<mapsto> u ''ana_x'', ''description'' \<mapsto> u ''look https://t.co/abc now'',
      ''upload_date'' \<mapsto> u ''20240101'']"

text \<open>The sample world once the response is deferred and the directory created.\<close>

definition w_ready :: world where
  "w_ready = w0\<lparr>deferred := True, tmpdirs := insert dir0 (tmpdirs w0)\<rparr>"

section \<open>Properties of the video fetcher\<close>

lemmas io_defs = ret_def raise_def bind_def try_except_def try_finally_def lift_def

lemma first_some_SomeD: "first_some f xs = Some y \<Longrightarrow> \<exists>x\<in>set xs. f x = Some y"
  by (induction xs) (auto split: option.splits)

lemma re_search_SomeD: "re_search m s = Some g \<Longrightarrow> \<exists>t. m t = Some g"
  by (induction s) (auto split: option.splits)

lemma digits_group_nonempty: "digits_group e s = Some d \<Longrightarrow> d \<noteq> []"
  by (auto simp: digits_group_def Let_def split: if_splits)

lemma match_status_nonempty: "match_status e s = Some d \<Longrightarrow> d \<noteq> []"
  by (auto simp: match_status_def status_group_def Let_def
      dest!: first_some_SomeD digits_group_nonempty split: option.splits if_splits)

lemma match_web_status_nonempty: "match_web_status e s = Some d \<Longrightarrow> d \<noteq> []"
  by (auto simp: match_web_status_def Let_def
      dest!: digits_group_nonempty split: option.splits if_splits)

text \<open>The group \<open>(\d+)\<close> is never empty, so \<open>if not tweet_id\<close> only catches \<open>None\<close>.\<close>

lemma extract_tweet_id_nonempty: "extract_tweet_id e url = Some t \<Longrightarrow> t \<noteq> []"
  by (auto simp: extract_tweet_id_def
      dest!: re_search_SomeD match_status_nonempty match_web_status_nonempty split: option.splits)

lemma download_with_id:
  assumes "extract_tweet_id e url = Some t"
  shows "download_twitter_video e url d =
     try_except (fetch_body e url d t)
       (\<lambda>x. case x of
          AsyncioTimeoutError m \<Rightarrow> ret (error_dict timeout_msg)
        | _ \<Rightarrow> ret (error_dict (exception_msg x)))"
  using assms extract_tweet_id_nonempty [OF assms] by (simp add: download_twitter_video_def)

lemma unpack7_too_many:
  "7 < length parts \<Longrightarrow>
   unpack7 parts =
     Inl (OtherException (u ''ValueError'') (u ''too many values to unpack (expected 7)''))"
  by (auto simp: unpack7_def split: list.splits)

text \<open>The body of the fetcher once the child has exited and both streams decode.\<close>

lemma fetch_body_exited:
  assumes "create_subprocess_exec e (cmd_args e url d t) = None"
      and "communicate e = Inr (rc, Inr out, Inr err)"
  shows "fetch_body e url d t w =
     (if rc \<noteq> 0 then
        (Inr (error_dict (exit_code_msg rc (strip err))), w\<lparr>child := ChildExited rc\<rparr>)
      else if length (split sep (strip out)) < 7 then
        (Inr (error_dict (unexpected_output_msg (split sep (strip out)) (strip out))),
         w\<lparr>child := ChildExited rc\<rparr>)
      else
        bind (lift (unpack7 (split sep (strip out))))
          (\<lambda>(video_url, title, thumbnail, uploader, uploader_id, description, upload_date).
           bind (lift (glob e d (t @ u ''.*''))) (\<lambda>video_files.
             case video_files of
               [] \<Rightarrow>
                 bind (lift (glob e d (u ''*''))) (\<lambda>all_files.
                   ret (error_dict (no_file_msg d)))
             | video_path # _ \<Rightarrow>
                 bind (lift (fetch_stat e video_path)) (\<lambda>file_size.
                   ret [''file_path'' \<mapsto> video_path,
                        ''title'' \<mapsto> strip title,
                        ''thumbnail'' \<mapsto> strip thumbnail,
                        ''uploader'' \<mapsto> strip uploader,
                        ''uploader_id'' \<mapsto> strip uploader_id,
                        ''description'' \<mapsto> strip description,
                        ''upload_date'' \<mapsto> strip upload_date])))
          (w\<lparr>child := ChildExited rc\<rparr>))"
  using assms
  by (simp add: fetch_body_def bind_def do_spawn_def do_communicate_def lift_def ret_def Let_def)




lemma error_dict_not_success: "dom (error_dict m) \<noteq> success_keys"
  by (auto simp: error_dict_def success_keys_def)

text \<open>
  A success record is returned only when the child exits with code 0 and prints
  exactly seven fields.
\<close>

lemma success_needs_seven_fields:
  assumes "download_twitter_video e url d w = (Inr r, w')" and "dom r = success_keys"
  shows "\<exists>out err. communicate e = Inr (0, Inr out, Inr err) \<and>
           length (split sep (strip out)) = 7"
proof (cases "extract_tweet_id e url")
  case None
  then show ?thesis
    using assms error_dict_not_success by (auto simp: download_twitter_video_def ret_def)
next
  case (Some t)
  obtain res w1 where b: "fetch_body e url d t w = (res, w1)"
    by (cases "fetch_body e url d t w")
  have r: "res = Inr r"
    using assms b error_dict_not_success
    by (cases res)
      (auto simp: download_with_id [OF Some] try_except_def ret_def split: exn.splits)
  have seven: "length parts = 7" if "unpack7 parts = Inr z" for parts z
    using that by (auto simp: unpack7_def split: list.splits)
  show ?thesis
    using b [unfolded r] assms(2) error_dict_not_success
    unfolding fetch_body_def io_defs do_spawn_def do_communicate_def Let_def
    by (auto split: option.splits sum.splits prod.splits if_splits dest: seven)
qed

text \<open>The sample inputs, evaluated.\<close>

lemma extract_url0:
  assumes "re_word e = re_word env0" and "re_digit e = re_digit env0"
  shows "extract_tweet_id e url0 = Some (u ''123456'')"
  using assms
  by (simp add: extract_tweet_id_def url0_def u_def match_status_def domain_len_def env0_def
      status_group_def digits_group_def match_web_status_def)

lemma split_sample:
  "split sep (strip sample_stdout) =
     [u ''https://video.twimg.com/v.mp4'', u ''A title'', u ''https://pbs.twimg.com/t.jpg'',
      u ''Ana'', u ''ana_x'', u ''look https://t.co/abc now'', u ''20240101'']"
  by (simp add: sample_stdout_def sep_def strip_def isspace_def u_def)

lemma split_long: "length (split sep (strip long_stdout)) = 8"
  by (simp add: long_stdout_def sep_def strip_def isspace_def u_def)


lemma download_no_id:
  "extract_tweet_id e url = None \<Longrightarrow>
   download_twitter_video e url d w = (Inr (error_dict no_id_msg), w)"
  by (simp add: download_twitter_video_def ret_def)

lemma download_body_raises:
  assumes "extract_tweet_id e url = Some t" and "fetch_body e url d t w = (Inl x, w')"
  shows "download_twitter_video e url d w =
     (Inr (error_dict (case x of AsyncioTimeoutError m \<Rightarrow> timeout_msg | _ \<Rightarrow> exception_msg x)), w')"
  using assms(2)
  by (cases x) (simp_all add: download_with_id [OF assms(1)] try_except_def ret_def)

lemma download_body_returns:
  assumes "extract_tweet_id e url = Some t" and "fetch_body e url d t w = (Inr r, w')"
  shows "download_twitter_video e url d w = (Inr r, w')"
  using assms(2) by (simp add: download_with_id [OF assms(1)] try_except_def)

lemma download_timeout:
  assumes "extract_tweet_id e url = Some t"
      and "create_subprocess_exec e (cmd_args e url d t) = None"
      and "communicate e = Inl (AsyncioTimeoutError m)"
  shows "download_twitter_video e url d w =
     (Inr (error_dict timeout_msg), w\<lparr>child := ChildRunning\<rparr>)"
  using assms(2,3)
  by (simp add: download_with_id [OF assms(1)] try_except_def fetch_body_def bind_def
      do_spawn_def do_communicate_def ret_def)



lemma fetch_body_seven:
  assumes "create_subprocess_exec e (cmd_args e url d t) = None"
      and "communicate e = Inr (0, Inr out, Inr err)"
      and "split sep (strip out) = [v, ti, th, up, ui, de, ud]"
  shows "fetch_body e url d t w =
     (case glob e d (t @ u ''.*'') of
        Inl x \<Rightarrow> (Inl x, w\<lparr>child := ChildExited 0\<rparr>)
      | Inr [] \<Rightarrow>
          (case glob e d (u ''*'') of
             Inl x \<Rightarrow> (Inl x, w\<lparr>child := ChildExited 0\<rparr>)
           | Inr fs \<Rightarrow> (Inr (error_dict (no_file_msg d)), w\<lparr>child := ChildExited 0\<rparr>))
      | Inr (p # ps) \<Rightarrow>
          (case fetch_stat e p of
             Inl x \<Rightarrow> (Inl x, w\<lparr>child := ChildExited 0\<rparr>)
           | Inr n \<Rightarrow>
               (Inr [''file_path'' \<mapsto> p, ''title'' \<mapsto> strip ti, ''thumbnail'' \<mapsto> strip th,
                     ''uploader'' \<mapsto> strip up, ''uploader_id'' \<mapsto> strip ui,
                     ''description'' \<mapsto> strip de, ''upload_date'' \<mapsto> strip ud],
                w\<lparr>child := ChildExited 0\<rparr>)))"
  using assms(3)
  by (simp add: fetch_body_exited [OF assms(1,2)] unpack7_def bind_def lift_def ret_def
      split: sum.splits list.splits)


lemma download_seven_found:
  assumes "extract_tweet_id e url = Some t"
      and "create_subprocess_exec e (cmd_args e url d t) = None"
      and "communicate e = Inr (0, Inr out, Inr err)"
      and "split sep (strip out) = [v, ti, th, up, ui, de, ud]"
      and "glob e d (t @ u ''.*'') = Inr (p # ps)"
      and "fetch_stat e p = Inr n"
  shows "download_twitter_video e url d w =
     (Inr [''file_path'' \<mapsto> p, ''title'' \<mapsto> strip ti, ''thumbnail'' \<mapsto> strip th,
           ''uploader'' \<mapsto> strip up, ''uploader_id'' \<mapsto> strip ui,
           ''description'' \<mapsto> strip de, ''upload_date'' \<mapsto> strip ud],
      w\<lparr>child := ChildExited 0\<rparr>)"
  using assms(5,6)
  by (simp add: download_body_returns [OF assms(1)] fetch_body_seven [OF assms(2,3,4)])


lemma variant_fields [simp]:
  "re_word env_timeout = re_word env0" "re_digit env_timeout = re_digit env0"
  "re_word env_exit1 = re_word env0" "re_digit env_exit1 = re_digit env0"
  "re_word env_short = re_word env0" "re_digit env_short = re_digit env0"
  "re_word env_long = re_word env0" "re_digit env_long = re_digit env0"
  "re_word env_nofile = re_word env0" "re_digit env_nofile = re_digit env0"
  "re_word env_nospawn = re_word env0" "re_digit env_nospawn = re_digit env0"
  by (simp_all add: env_timeout_def env_exit1_def env_short_def env_long_def env_nofile_def
      env_nospawn_def)

lemma fetch_body_world: "\<exists>c. snd (fetch_body e url d t w) = w\<lparr>child := c\<rparr>"
proof -
  have same: "\<exists>c. w = w\<lparr>child := c\<rparr>" for w :: world
    by (rule exI [of _ "child w"]) simp
  have upd: "\<exists>c. w\<lparr>child := a\<rparr> = w\<lparr>child := c\<rparr>" for w :: world and a
    by blast
  show ?thesis
    unfolding fetch_body_def io_defs do_spawn_def do_communicate_def Let_def
    by (auto split: option.splits sum.splits prod.splits list.splits if_splits
        intro: same upd)
qed

lemma download_world: "\<exists>c. snd (download_twitter_video e url d w) = w\<lparr>child := c\<rparr>"
proof (cases "extract_tweet_id e url")
  case None
  then show ?thesis
    by (auto simp: download_no_id intro: exI [of _ "child w"])
next
  case (Some t)
  obtain res w1 where b: "fetch_body e url d t w = (res, w1)"
    by (cases "fetch_body e url d t w")
  with fetch_body_world [of e url d t w] obtain c where "w1 = w\<lparr>child := c\<rparr>" by auto
  then show ?thesis
    using b by (cases res) (auto simp: download_body_raises [OF Some] download_body_returns [OF Some])
qed



text \<open>
  C10.  When the child exits with code 0 and its output has more than seven
  fields (the description holds the separator, say), the assignment to seven names
  raises \<open>ValueError\<close>, the catch-all handler turns it into an error dictionary, and
  that is what the fetcher returns: a failure with a message, not a success record
  and not an exception.
\<close>

theorem too_many_fields_is_failure:
  assumes "extract_tweet_id e url = Some t"
      and "create_subprocess_exec e (cmd_args e url d t) = None"
      and "communicate e = Inr (0, Inr out, Inr err)"
      and "7 < length (split sep (strip out))"
  shows "download_twitter_video e url d w =
     (Inr (error_dict (exception_msg
        (OtherException (u ''ValueError'') (u ''too many values to unpack (expected 7)'')))),
      w\<lparr>child := ChildExited 0\<rparr>)"
proof -
  let ?x = "OtherException (u ''ValueError'') (u ''too many values to unpack (expected 7)'')"
  have "\<not> length (split sep (strip out)) < 7"
    using assms(4) by simp
  moreover have "unpack7 (split sep (strip out)) = Inl ?x"
    using assms(4) by (rule unpack7_too_many)
  ultimately have "fetch_body e url d t w = (Inl ?x, w\<lparr>child := ChildExited 0\<rparr>)"
    by (simp add: fetch_body_exited [OF assms(2,3)] bind_def lift_def)
  then show ?thesis
    by (simp add: download_body_raises [OF assms(1)])
qed

theorem too_many_fields_is_failure_witness:
  "extract_tweet_id env_long url0 = Some (u ''123456'') \<and>
   create_subprocess_exec env_long (cmd_args env_long url0 dir0 (u ''123456'')) = None \<and>
   communicate env_long = Inr (0, Inr long_stdout, Inr []) \<and>
   7 < length (split sep (strip long_stdout)) \<and>
   download_twitter_video env_long url0 dir0 w0 =
     (Inr (error_dict (exception_msg
        (OtherException (u ''ValueError'') (u ''too many values to unpack (expected 7)'')))),
      w0\<lparr>child := ChildExited 0\<rparr>)"
proof -
  have a: "extract_tweet_id env_long url0 = Some (u ''123456'')"
    by (rule extract_url0) (simp_all add: env_long_def)
  have b: "create_subprocess_exec env_long (cmd_args env_long url0 dir0 (u ''123456'')) = None"
    by (simp add: env_long_def env0_def)
  have c: "communicate env_long = Inr (0, Inr long_stdout, Inr [])"
    by (simp add: env_long_def)
  have d: "7 < length (split sep (strip long_stdout))"
    by (simp add: split_long)
  show ?thesis
    using a b c d too_many_fields_is_failure [OF a b c d, where w = w0] by simp
qed

text \<open>
  C5 (as amended).  When 60 seconds pass before the child exits, the fetcher
  returns the error dictionary with the timeout message.  Nothing is sent to the
  child: it is left as it was, running.
\<close>

theorem timeout_is_failure_child_abandoned:
  assumes "extract_tweet_id e url = Some t"
      and "create_subprocess_exec e (cmd_args e url d t) = None"
      and "communicate e = Inl (AsyncioTimeoutError m)"
  shows "download_twitter_video e url d w =
     (Inr (error_dict timeout_msg), w\<lparr>child := ChildRunning\<rparr>)"
proof -
  have "do_spawn e (cmd_args e url d t) w = (Inr (), w\<lparr>child := ChildRunning\<rparr>)"
    using assms(2) by (simp add: do_spawn_def)
  moreover have "do_communicate e (w\<lparr>child := ChildRunning\<rparr>) =
      (Inl (AsyncioTimeoutError m), w\<lparr>child := ChildRunning\<rparr>)"
    using assms(3) by (simp add: do_communicate_def)
  ultimately have "fetch_body e url d t w =
      (Inl (AsyncioTimeoutError m), w\<lparr>child := ChildRunning\<rparr>)"
    by (simp add: fetch_body_def bind_def)
  then show ?thesis
    by (simp add: download_body_raises [OF assms(1)])
qed

theorem timeout_is_failure_child_abandoned_witness:
  "extract_tweet_id env_timeout url0 = Some (u ''123456'') \<and>
   create_subprocess_exec env_timeout (cmd_args env_timeout url0 dir0 (u ''123456'')) = None \<and>
   communicate env_timeout = Inl (AsyncioTimeoutError []) \<and>
   download_twitter_video env_timeout url0 dir0 w0 =
     (Inr (error_dict timeout_msg), w0\<lparr>child := ChildRunning\<rparr>)"
proof -
  have a: "extract_tweet_id env_timeout url0 = Some (u ''123456'')"
    by (rule extract_url0) simp_all
  have b: "create_subprocess_exec env_timeout (cmd_args env_timeout url0 dir0 (u ''123456'')) = None"
    by (simp add: env_timeout_def env0_def)
  have c: "communicate env_timeout = Inl (AsyncioTimeoutError [])"
    by (simp add: env_timeout_def)
  show ?thesis
    using a b c timeout_is_failure_child_abandoned [OF a b c, where w = w0] by simp
qed

text \<open>
  The claim as it was stated fails: after the timeout the child is still running.
\<close>

theorem timeout_child_still_running:
  "communicate env_timeout = Inl (AsyncioTimeoutError []) \<and>
   fst (download_twitter_video env_timeout url0 dir0 w0) = Inr (error_dict timeout_msg) \<and>
   child (snd (download_twitter_video env_timeout url0 dir0 w0)) = ChildRunning"
proof -
  have a: "extract_tweet_id env_timeout url0 = Some (u ''123456'')"
    by (rule extract_url0) simp_all
  have b: "create_subprocess_exec env_timeout (cmd_args env_timeout url0 dir0 (u ''123456'')) = None"
    by (simp add: env_timeout_def env0_def)
  have c: "communicate env_timeout = Inl (AsyncioTimeoutError [])"
    by (simp add: env_timeout_def)
  show ?thesis
    using c download_timeout [OF a b c, where w = w0] by simp
qed




section \<open>Properties of the URL preview suppressor\<close>

lemma scheme_len_cases:
  "scheme_len s = Some n \<Longrightarrow>
   (n = 8 \<and> prefix (u ''https://'') s) \<or> (n = 7 \<and> prefix (u ''http://'') s)"
  by (auto simp: scheme_len_def split: if_splits)

lemma takeWhile_prefix: "prefix (take n s @ takeWhile P (drop n s)) s"
proof -
  have "s = (take n s @ takeWhile P (drop n s)) @ dropWhile P (drop n s)"
    by simp
  then show ?thesis unfolding prefix_def by blast
qed

lemma match_url_is_url:
  assumes "match_url s = Some (m, r)"
  shows "is_url m \<and> prefix m s"
proof -
  obtain n where n: "scheme_len s = Some n"
    using assms by (auto simp: match_url_def split: option.splits)
  let ?b = "takeWhile url_char (drop n s)"
  have b: "?b \<noteq> []" and m: "m = take n s @ ?b"
    using assms n by (auto simp: match_url_def Let_def split: if_splits)
  have p: "prefix m s"
    unfolding m by (rule takeWhile_prefix)
  from scheme_len_cases [OF n] have len: "n \<le> length s"
    by (auto simp: prefix_def u_def)
  have dm: "drop n m = ?b" and lm: "n < length m"
    using len b by (simp_all add: m)
  have all: "list_all url_char ?b"
    by (simp add: list_all_iff) (meson set_takeWhileD)
  from scheme_len_cases [OF n] show ?thesis
  proof
    assume "n = 8 \<and> prefix (u ''https://'') s"
    then have "prefix (u ''https://'') m"
      using len by (auto simp: m prefix_def u_def)
    then show ?thesis using p dm lm all \<open>n = 8 \<and> _\<close> by (auto simp: is_url_def)
  next
    assume "n = 7 \<and> prefix (u ''http://'') s"
    then have "prefix (u ''http://'') m"
      using len by (auto simp: m prefix_def u_def)
    then show ?thesis using p dm lm all \<open>n = 7 \<and> _\<close> by (auto simp: is_url_def)
  qed
qed

lemma takeWhile_all_then_stop:
  assumes "list_all P b" and "post = [] \<or> \<not> P (hd post)"
  shows "takeWhile P (b @ post) = b" and "dropWhile P (b @ post) = post"
proof -
  have "takeWhile P post = [] \<and> dropWhile P post = post"
    using assms(2) by (cases post) auto
  then show "takeWhile P (b @ post) = b" and "dropWhile P (b @ post) = post"
    using assms(1) by (induction b) auto
qed

lemma is_url_match:
  assumes "is_url m" and "post = [] \<or> \<not> url_char (hd post)"
  shows "match_url (m @ post) = Some (m, post)"
proof -
  from assms(1) consider
      (http) "prefix (u ''http://'') m" "7 < length m" "list_all url_char (drop 7 m)"
    | (https) "prefix (u ''https://'') m" "8 < length m" "list_all url_char (drop 8 m)"
    by (auto simp: is_url_def)
  then show ?thesis
  proof cases
    case http
    then obtain b where mb: "m = u ''http://'' @ b" and b: "b \<noteq> []" "list_all url_char b"
      by (auto simp: prefix_def u_def)
    have sl: "scheme_len (m @ post) = Some 7"
      by (simp add: scheme_len_def mb u_def)
    show ?thesis
      using b takeWhile_all_then_stop [OF b(2) assms(2)]
      by (simp add: match_url_def sl Let_def) (simp add: mb u_def)
  next
    case https
    then obtain b where mb: "m = u ''https://'' @ b" and b: "b \<noteq> []" "list_all url_char b"
      by (auto simp: prefix_def u_def)
    have sl: "scheme_len (m @ post) = Some 8"
      by (simp add: scheme_len_def mb u_def)
    show ?thesis
      using b takeWhile_all_then_stop [OF b(2) assms(2)]
      by (simp add: match_url_def sl Let_def) (simp add: mb u_def)
  qed
qed

lemma re_sub_wrap_append:
  "(\<forall>i<length pre. match_url (drop i (pre @ s)) = None) \<Longrightarrow>
   re_sub_wrap (pre @ s) = pre @ re_sub_wrap s"
proof (induction pre)
  case Nil
  then show ?case by simp
next
  case (Cons c pre)
  have "match_url ((c # pre) @ s) = None"
    using Cons.prems by (auto dest: spec [where x = 0])
  moreover have "\<forall>i<length pre. match_url (drop i (pre @ s)) = None"
    using Cons.prems by (auto dest: spec [where x = "Suc _"])
  ultimately show ?case using Cons.IH by simp
qed

lemma no_url_start_no_match:
  assumes "\<forall>i<length pre. \<forall>m. is_url m \<longrightarrow> \<not> prefix m (drop i t)"
  shows "\<forall>i<length pre. match_url (drop i t) = None"
proof (intro allI impI)
  fix i assume "i < length pre"
  show "match_url (drop i t) = None"
  proof (cases "match_url (drop i t)")
    case (Some a)
    then obtain m r where "match_url (drop i t) = Some (m, r)" by (cases a) auto
    from match_url_is_url [OF this] assms \<open>i < length pre\<close> show ?thesis by blast
  qed simp
qed

lemma suppress_identity:
  assumes "\<forall>m. is_url m \<longrightarrow> \<not> sublist m t"
  shows "suppress_url_previews t = t"
proof -
  have "\<forall>i<length t. \<forall>m. is_url m \<longrightarrow> \<not> prefix m (drop i t)"
  proof (intro allI impI notI)
    fix i m assume "is_url m" "prefix m (drop i t)"
    then obtain r where "drop i t = m @ r" by (auto simp: prefix_def)
    then have "t = take i t @ m @ r" by (metis append_take_drop_id)
    then have "sublist m t" unfolding sublist_def by blast
    with assms \<open>is_url m\<close> show False by blast
  qed
  from no_url_start_no_match [OF this] re_sub_wrap_append [of t "[]"]
  show ?thesis by (simp add: suppress_url_previews_def)
qed

lemma suppress_wraps:
  assumes "is_url m" and "post = [] \<or> \<not> url_char (hd post)"
      and "\<forall>i<length pre. \<forall>m'. is_url m' \<longrightarrow> \<not> prefix m' (drop i (pre @ m @ post))"
  shows "suppress_url_previews (pre @ m @ post) = pre @ [60] @ m @ [62] @ suppress_url_previews post"
proof -
  have ne: "m \<noteq> []" using assms(1) by (auto simp: is_url_def)
  then obtain c cs where mc: "m @ post = c # cs" by (cases m) auto
  have "re_sub_wrap (m @ post) = 60 # m @ 62 # re_sub_wrap post"
    using is_url_match [OF assms(1,2)] unfolding mc by simp
  moreover have "re_sub_wrap (pre @ m @ post) = pre @ re_sub_wrap (m @ post)"
    by (rule re_sub_wrap_append) (rule no_url_start_no_match [OF assms(3)])
  ultimately show ?thesis
    using ne by (simp add: suppress_url_previews_def)
qed

lemma is_url_hd: "is_url m \<Longrightarrow> \<exists>r. m = 104 # r"
  by (auto simp: is_url_def prefix_def u_def)

text \<open>
  C8.  The suppressor is a function of its text alone.  On a text with no URL in
  it (no part of the text is a URL) it returns the text unchanged.  On a text
  \<open>pre @ m @ post\<close> where \<open>m\<close> is a URL that ends where \<open>post\<close> begins (\<open>post\<close> is empty
  or starts with whitespace or an angle bracket) and no URL starts inside \<open>pre\<close>, the
  result is \<open>pre\<close> unchanged, then \<open>m\<close> between \<open><\<close> and \<open>>\<close>, then the suppressor's
  result on \<open>post\<close>.
\<close>

theorem suppress_url_previews_contract:
  "((\<forall>m. is_url m \<longrightarrow> \<not> sublist m t) \<longrightarrow> suppress_url_previews t = t) \<and>
   (is_url m \<and> (post = [] \<or> \<not> url_char (hd post)) \<and>
    (\<forall>i<length pre. \<forall>m'. is_url m' \<longrightarrow> \<not> prefix m' (drop i (pre @ m @ post))) \<longrightarrow>
      suppress_url_previews (pre @ m @ post) =
        pre @ [60] @ m @ [62] @ suppress_url_previews post)"
proof (intro conjI impI)
  assume "\<forall>m. is_url m \<longrightarrow> \<not> sublist m t"
  then show "suppress_url_previews t = t"
    by (rule suppress_identity)
next
  assume a: "is_url m \<and> (post = [] \<or> \<not> url_char (hd post)) \<and>
    (\<forall>i<length pre. \<forall>m'. is_url m' \<longrightarrow> \<not> prefix m' (drop i (pre @ m @ post)))"
  then have "is_url m" and "post = [] \<or> \<not> url_char (hd post)"
    and "\<forall>i<length pre. \<forall>m'. is_url m' \<longrightarrow> \<not> prefix m' (drop i (pre @ m @ post))"
    by blast+
  then show "suppress_url_previews (pre @ m @ post) =
      pre @ [60] @ m @ [62] @ suppress_url_previews post"
    by (rule suppress_wraps)
qed

theorem suppress_url_previews_contract_witness:
  "\<not> (\<exists>m. is_url m \<and> sublist m (u ''hello'')) \<and>
   suppress_url_previews (u ''hello'') = u ''hello'' \<and>
   is_url (u ''http://a.b'') \<and>
   \<not> url_char (hd (u '' c'')) \<and>
   \<not> (\<exists>i<length (u ''x ''). \<exists>m'. is_url m' \<and>
         prefix m' (drop i (u ''x '' @ u ''http://a.b'' @ u '' c''))) \<and>
   suppress_url_previews (u ''x '' @ u ''http://a.b'' @ u '' c'') =
     u ''x '' @ [60] @ u ''http://a.b'' @ [62] @ u '' c''"
proof -
  note T = suppress_url_previews_contract
  have h1: "\<not> (\<exists>m. is_url m \<and> sublist m (u ''hello''))"
  proof
    assume "\<exists>m. is_url m \<and> sublist m (u ''hello'')"
    then obtain m where m: "is_url m" "sublist m (u ''hello'')" by blast
    from m(1) have "7 < length m" by (auto simp: is_url_def)
    moreover from sublist_length_le [OF m(2)] have "length m \<le> 5" by (simp add: u_def)
    ultimately show False by simp
  qed
  have c1: "suppress_url_previews (u ''hello'') = u ''hello''"
    using T [of "u ''hello''"] h1 by blast
  have h2: "is_url (u ''http://a.b'')"
    by (simp add: is_url_def u_def url_char_def isspace_def)
  have h3: "\<not> url_char (hd (u '' c''))"
    by (simp add: u_def url_char_def isspace_def)
  have h4: "\<not> (\<exists>i<length (u ''x ''). \<exists>m'. is_url m' \<and>
         prefix m' (drop i (u ''x '' @ u ''http://a.b'' @ u '' c'')))"
  proof
    assume "\<exists>i<length (u ''x ''). \<exists>m'. is_url m' \<and>
         prefix m' (drop i (u ''x '' @ u ''http://a.b'' @ u '' c''))"
    then obtain i m' where i: "i < length (u ''x '')" and m': "is_url m'"
        and p: "prefix m' (drop i (u ''x '' @ u ''http://a.b'' @ u '' c''))"
      by blast
    from is_url_hd [OF m'] obtain r where r: "m' = 104 # r" by blast
    from i have "i = 0 \<or> i = 1" by (auto simp: u_def)
    then show False using p r by (auto simp: u_def)
  qed
  have c2: "suppress_url_previews (u '' c'') = u '' c''"
    by (simp add: suppress_url_previews_def u_def match_url_def scheme_len_def)
  have c3: "suppress_url_previews (u ''x '' @ u ''http://a.b'' @ u '' c'') =
     u ''x '' @ [60] @ u ''http://a.b'' @ [62] @ u '' c''"
    using T [of _ "u ''http://a.b''" "u '' c''" "u ''x ''"] h2 h3 h4 c2 by auto
  show ?thesis
    using h1 c1 h2 h3 h4 c3 by blast
qed

section \<open>Properties of the link rewriters\<close>



section \<open>Properties of the \<open>/vx\<close> command\<close>

lemma replace_twitter_started:
  assumes "sublist (u ''twitter.com'') url \<or> sublist (u ''x.com'') url"
      and "response_defer e = None"
      and "mkdtemp e = Inr d"
  shows "replace_twitter e url w =
     try_finally (guarded e (relay_body e url d)) (cleanup e d)
       (w\<lparr>deferred := True, tmpdirs := insert d (tmpdirs w)\<rparr>)"
  using assms
  by (simp add: replace_twitter_def bind_def do_defer_def do_mkdtemp_def)

lemma do_followup_eq:
  "do_followup e m w =
     (case followup_send e (length (sent w)) of
        Some x \<Rightarrow> Inl x | None \<Rightarrow> Inr (),
      w\<lparr>sent := sent w @ [(m, followup_send e (length (sent w)) = None)]\<rparr>)"
  by (simp add: do_followup_def split: option.splits)

lemma guarded_result: "fst (guarded e m w) = Inr ()"
  by (simp add: guarded_def try_except_def ret_def do_followup_eq
      split: prod.splits sum.splits option.splits)

lemma guarded_world:
  "snd (guarded e m w) =
     (case m w of
        (Inr a, w') \<Rightarrow> w'
      | (Inl x, w') \<Rightarrow>
          w'\<lparr>sent := sent w' @
            [(Text (unexpected_error_text x) True, followup_send e (length (sent w')) = None)]\<rparr>)"
  by (simp add: guarded_def try_except_def ret_def do_followup_eq
      split: prod.splits sum.splits option.splits)

lemma cleanup_eq:
  "cleanup e d w =
     (Inr (),
      w\<lparr>rmtree_calls := rmtree_calls w @ [d],
        tmpdirs := (if rmtree e d = None then tmpdirs w - {d} else tmpdirs w)\<rparr>)"
  by (simp add: cleanup_def try_except_def do_rmtree_def ret_def split: option.splits)

lemma finally_cleanup:
  "try_finally m (cleanup e d) w =
     (fst (m w),
      (snd (m w))\<lparr>rmtree_calls := rmtree_calls (snd (m w)) @ [d],
        tmpdirs := (if rmtree e d = None then tmpdirs (snd (m w)) - {d}
                    else tmpdirs (snd (m w)))\<rparr>)"
  by (simp add: try_finally_def cleanup_eq split: prod.splits)

text \<open>What the body of the command can change: the child and the messages sent.\<close>

lemma upload_world: "\<exists>s. snd (upload e p emb w) = w\<lparr>sent := s\<rparr>"
proof -
  have same: "\<exists>s. w = w\<lparr>sent := s\<rparr>" for w :: world
    by (rule exI [of _ "sent w"]) simp
  show ?thesis
    unfolding upload_def io_defs do_followup_eq
    by (auto split: option.splits sum.splits prod.splits exn.splits intro: same)
qed

lemma relay_body_world: "\<exists>c s. snd (relay_body e url d w) = w\<lparr>child := c, sent := s\<rparr>"
proof -
  obtain r w1 where dl: "download_twitter_video e url d w = (r, w1)"
    by (cases "download_twitter_video e url d w")
  with download_world [of e url d w] obtain c where w1: "w1 = w\<lparr>child := c\<rparr>" by auto
  have same: "\<exists>s. w1 = w\<lparr>child := c, sent := s\<rparr>"
    by (rule exI [of _ "sent w"]) (simp add: w1)
  have upd: "\<exists>s. w1\<lparr>sent := a\<rparr> = w\<lparr>child := c, sent := s\<rparr>" for a
    unfolding w1 by blast
  have up: "\<exists>s. snd (upload e p emb w1) = w\<lparr>child := c, sent := s\<rparr>" for p emb
    using upload_world [of e p emb w1] by (auto simp: w1)
  show ?thesis
    unfolding relay_body_def bind_def lift_def dl
    using same upd up
    by (auto simp: do_followup_eq split: sum.splits prod.splits if_splits intro!: exI [of _ c])
qed

lemma guarded_relay_world:
  "\<exists>c s. snd (guarded e (relay_body e url d) w) = w\<lparr>child := c, sent := s\<rparr>"
proof -
  obtain r w1 where b: "relay_body e url d w = (r, w1)"
    by (cases "relay_body e url d w")
  with relay_body_world [of e url d w] obtain c s where "w1 = w\<lparr>child := c, sent := s\<rparr>"
    by auto
  then show ?thesis
    by (cases r) (auto simp: guarded_world b)
qed

text \<open>The command from the creation of the directory to its end.\<close>

lemma replace_twitter_cleanup:
  assumes "sublist (u ''twitter.com'') url \<or> sublist (u ''x.com'') url"
      and "response_defer e = None"
      and "mkdtemp e = Inr d"
  shows "fst (replace_twitter e url w) = Inr ()"
    and "rmtree_calls (snd (replace_twitter e url w)) = rmtree_calls w @ [d]"
    and "tmpdirs (snd (replace_twitter e url w)) =
           (if rmtree e d = None then tmpdirs w - {d} else insert d (tmpdirs w))"
proof -
  let ?w1 = "w\<lparr>deferred := True, tmpdirs := insert d (tmpdirs w)\<rparr>"
  obtain c s where g: "snd (guarded e (relay_body e url d) ?w1) = ?w1\<lparr>child := c, sent := s\<rparr>"
    using guarded_relay_world [of e url d ?w1] by blast
  show "fst (replace_twitter e url w) = Inr ()"
    by (simp add: replace_twitter_started [OF assms] finally_cleanup guarded_result)
  show "rmtree_calls (snd (replace_twitter e url w)) = rmtree_calls w @ [d]"
    by (simp add: replace_twitter_started [OF assms] finally_cleanup g)
  show "tmpdirs (snd (replace_twitter e url w)) =
           (if rmtree e d = None then tmpdirs w - {d} else insert d (tmpdirs w))"
    by (simp add: replace_twitter_started [OF assms] finally_cleanup g)
qed

lemma uploads_simps [simp]:
  "uploads (w\<lparr>sent := sent w @ [(Text t b, ok)]\<rparr>) = uploads w"
  "uploads (w\<lparr>sent := sent w @ [(Upload emb n, ok)]\<rparr>) = uploads w @ [(emb, n)]"
  "uploads (w\<lparr>child := c\<rparr>) = uploads w"
  "uploads (w\<lparr>deferred := b', tmpdirs := ds\<rparr>) = uploads w"
  "uploads (w\<lparr>rmtree_calls := rs, tmpdirs := ds\<rparr>) = uploads w"
  by (simp_all add: uploads_def)

lemma relay_body_fetched:
  assumes "download_twitter_video e url d w = (Inr vd, w')"
      and "vd ''error'' = None" and "vd ''file_path'' = Some p" and "stat e p = Inr sz"
  shows "relay_body e url d w =
     (if max_size < sz then do_followup e (Text (too_large_text e sz) True) w'
      else upload e p (build_embed e vd sz) w')"
  using assms by (simp add: relay_body_def bind_def lift_def getitem_def)

lemma upload_opened:
  assumes "open_rb e p = None"
  shows "upload e p emb w =
     (case followup_send e (length (sent w)) of
        None \<Rightarrow> (Inr (), w\<lparr>sent := sent w @ [(Upload emb (path_name e p), True)]\<rparr>)
      | Some (HTTPException n status txt m) \<Rightarrow>
          do_followup e (Text (http_error_text status txt) True)
            (w\<lparr>sent := sent w @ [(Upload emb (path_name e p), False)]\<rparr>)
      | Some x \<Rightarrow> (Inl x, w\<lparr>sent := sent w @ [(Upload emb (path_name e p), False)]\<rparr>))"
  using assms
  by (simp add: upload_def try_except_def bind_def lift_def raise_def do_followup_def
      split: option.splits exn.splits)

lemma upload_uploads:
  assumes "open_rb e p = None"
  shows "uploads (snd (upload e p emb w)) = uploads w @ [(emb, path_name e p)]"
  by (simp add: upload_opened [OF assms] do_followup_eq uploads_def
      split: option.splits exn.splits)

lemma guarded_uploads: "uploads (snd (guarded e m w)) = uploads (snd (m w))"
  by (simp add: guarded_world uploads_def split: prod.splits sum.splits)

lemma replace_twitter_sent:
  assumes "sublist (u ''twitter.com'') url \<or> sublist (u ''x.com'') url"
      and "response_defer e = None"
      and "mkdtemp e = Inr d"
  shows "sent (snd (replace_twitter e url w)) =
     sent (snd (guarded e (relay_body e url d) (w\<lparr>deferred := True, tmpdirs := insert d (tmpdirs w)\<rparr>)))"
  by (simp add: replace_twitter_started [OF assms] finally_cleanup)

text \<open>The command after a fetch that succeeded.\<close>

lemma replace_twitter_too_large:
  assumes "sublist (u ''twitter.com'') url \<or> sublist (u ''x.com'') url"
      and "response_defer e = None"
      and "mkdtemp e = Inr d"
      and "download_twitter_video e url d (w\<lparr>deferred := True, tmpdirs := insert d (tmpdirs w)\<rparr>) =
             (Inr vd, w')"
      and "vd ''error'' = None" and "vd ''file_path'' = Some p" and "stat e p = Inr sz"
      and "max_size < sz"
  shows "sent (snd (replace_twitter e url w)) =
     sent w @ (Text (too_large_text e sz) True, followup_send e (length (sent w)) = None) #
       (case followup_send e (length (sent w)) of
          None \<Rightarrow> []
        | Some x \<Rightarrow>
            [(Text (unexpected_error_text x) True,
              followup_send e (Suc (length (sent w))) = None)])"
proof -
  let ?w1 = "w\<lparr>deferred := True, tmpdirs := insert d (tmpdirs w)\<rparr>"
  from download_world [of e url d ?w1] assms(4) obtain c where w': "w' = ?w1\<lparr>child := c\<rparr>"
    by auto
  show ?thesis
    using assms(8)
    by (simp add: replace_twitter_sent [OF assms(1-3)] guarded_world
        relay_body_fetched [OF assms(4-7)] do_followup_eq w' split: option.splits)
qed

lemma replace_twitter_uploads:
  assumes "sublist (u ''twitter.com'') url \<or> sublist (u ''x.com'') url"
      and "response_defer e = None"
      and "mkdtemp e = Inr d"
      and "download_twitter_video e url d (w\<lparr>deferred := True, tmpdirs := insert d (tmpdirs w)\<rparr>) =
             (Inr vd, w')"
      and "vd ''error'' = None" and "vd ''file_path'' = Some p" and "stat e p = Inr sz"
  shows "uploads (snd (replace_twitter e url w)) =
     (if max_size < sz then uploads w
      else if open_rb e p = None then uploads w @ [(build_embed e vd sz, path_name e p)]
      else uploads w)"
proof -
  let ?w1 = "w\<lparr>deferred := True, tmpdirs := insert d (tmpdirs w)\<rparr>"
  from download_world [of e url d ?w1] assms(4) obtain c where w': "w' = ?w1\<lparr>child := c\<rparr>"
    by auto
  have closed: "uploads (snd (upload e p emb w')) = uploads w'" if "open_rb e p \<noteq> None" for emb
    using that
    by (auto simp: upload_def try_except_def bind_def lift_def raise_def do_followup_eq
        split: exn.splits)
  have "uploads (snd (replace_twitter e url w)) = uploads (snd (relay_body e url d ?w1))"
    by (simp add: replace_twitter_started [OF assms(1-3)] finally_cleanup guarded_uploads)
  also have "\<dots> = (if max_size < sz then uploads w
      else if open_rb e p = None then uploads w @ [(build_embed e vd sz, path_name e p)]
      else uploads w)"
    using closed
    by (simp add: relay_body_fetched [OF assms(4-7)] do_followup_eq upload_uploads) (simp add: w')
  finally show ?thesis .
qed

lemma replace_twitter_delivered:
  assumes "sublist (u ''twitter.com'') url \<or> sublist (u ''x.com'') url"
      and "response_defer e = None"
      and "mkdtemp e = Inr d"
      and "download_twitter_video e url d (w\<lparr>deferred := True, tmpdirs := insert d (tmpdirs w)\<rparr>) =
             (Inr vd, w')"
      and "vd ''error'' = None" and "vd ''file_path'' = Some p" and "stat e p = Inr sz"
      and "sz \<le> max_size" and "open_rb e p = None"
      and "followup_send e (length (sent w)) = None"
  shows "sent (snd (replace_twitter e url w)) =
     sent w @ [(Upload (build_embed e vd sz) (path_name e p), True)]"
proof -
  let ?w1 = "w\<lparr>deferred := True, tmpdirs := insert d (tmpdirs w)\<rparr>"
  from download_world [of e url d ?w1] assms(4) obtain c where w': "w' = ?w1\<lparr>child := c\<rparr>"
    by auto
  show ?thesis
    using assms(8,10)
    by (simp add: replace_twitter_sent [OF assms(1-3)] guarded_world
        relay_body_fetched [OF assms(4-7)] upload_opened [OF assms(9)] w')
qed

text \<open>The sample runs, evaluated.\<close>

lemma url0_valid: "sublist (u ''twitter.com'') url0 \<or> sublist (u ''x.com'') url0"
  by (simp add: url0_def u_def sublist_code)

lemma sample_download:
  assumes "re_word e = re_word env0" and "re_digit e = re_digit env0"
      and "create_subprocess_exec e = create_subprocess_exec env0"
      and "communicate e = Inr (0, Inr out, Inr [])"
      and "split sep (strip out) = [v, ti, th, up, ui, de, ud]"
      and "glob e = glob env0" and "fetch_stat e = fetch_stat env0"
  shows "download_twitter_video e url0 dir0 w =
     (Inr [''file_path'' \<mapsto> dir0 @ u ''/123456.mp4'', ''title'' \<mapsto> strip ti,
           ''thumbnail'' \<mapsto> strip th, ''uploader'' \<mapsto> strip up, ''uploader_id'' \<mapsto> strip ui,
           ''description'' \<mapsto> strip de, ''upload_date'' \<mapsto> strip ud],
      w\<lparr>child := ChildExited 0\<rparr>)"
proof -
  have a: "extract_tweet_id e url0 = Some (u ''123456'')"
    by (rule extract_url0) (rule assms)+
  have b: "create_subprocess_exec e (cmd_args e url0 dir0 (u ''123456'')) = None"
    by (simp add: assms(3) env0_def)
  have g: "glob e dir0 (u ''123456'' @ u ''.*'') = Inr [dir0 @ u ''/123456.mp4'']"
    by (simp add: assms(6) env0_def u_def)
  have h: "fetch_stat e (dir0 @ u ''/123456.mp4'') = Inr 3145728"
    by (simp add: assms(7) env0_def)
  show ?thesis
    by (rule download_seven_found [OF a b assms(4) assms(5) g h])
qed

lemma strip_samples:
  "strip (u ''A title'') = u ''A title''"
  "strip (u ''https://pbs.twimg.com/t.jpg'') = u ''https://pbs.twimg.com/t.jpg''"
  "strip (u ''Ana'') = u ''Ana''"
  "strip (u ''ana_x'') = u ''ana_x''"
  "strip (u ''look https://t.co/abc now'') = u ''look https://t.co/abc now''"
  "strip (u ''20240101'') = u ''20240101''"
  "strip [] = []"
  by (simp_all add: strip_def isspace_def u_def)

lemma path_name_sample: "path_name env0 (dir0 @ u ''/123456.mp4'') = u ''123456.mp4''"
  by (simp add: env0_def dir0_def u_def)

text \<open>
  C1 (as amended).  Once the command has created its temporary directory, it
  returns without raising, and on the way out, whatever happened in between, it
  calls \<open>shutil.rmtree\<close> on that directory exactly once.  When that call succeeds the
  directory is gone at the end of the invocation.
\<close>

theorem temp_dir_cleanup:
  assumes "sublist (u ''twitter.com'') url \<or> sublist (u ''x.com'') url"
      and "response_defer e = None"
      and "mkdtemp e = Inr d"
  shows "fst (replace_twitter e url w) = Inr () \<and>
     rmtree_calls (snd (replace_twitter e url w)) = rmtree_calls w @ [d] \<and>
     (rmtree e d = None \<longrightarrow> d \<notin> tmpdirs (snd (replace_twitter e url w)))"
proof (intro conjI impI)
  show "fst (replace_twitter e url w) = Inr ()"
    by (rule replace_twitter_cleanup(1) [OF assms])
  show "rmtree_calls (snd (replace_twitter e url w)) = rmtree_calls w @ [d]"
    by (rule replace_twitter_cleanup(2) [OF assms])
  assume "rmtree e d = None"
  then have "tmpdirs (snd (replace_twitter e url w)) = tmpdirs w - {d}"
    by (simp add: replace_twitter_cleanup(3) [OF assms])
  then show "d \<notin> tmpdirs (snd (replace_twitter e url w))"
    by simp
qed

theorem temp_dir_cleanup_witness:
  "(sublist (u ''twitter.com'') url0 \<or> sublist (u ''x.com'') url0) \<and>
   response_defer env0 = None \<and> mkdtemp env0 = Inr dir0 \<and> rmtree env0 dir0 = None \<and>
   fst (replace_twitter env0 url0 w0) = Inr () \<and>
   rmtree_calls (snd (replace_twitter env0 url0 w0)) = [dir0] \<and>
   dir0 \<notin> tmpdirs (snd (replace_twitter env0 url0 w0))"
proof -
  have b: "response_defer env0 = None" and c: "mkdtemp env0 = Inr dir0"
    and r: "rmtree env0 dir0 = None"
    by (simp_all add: env0_def dir0_def)
  show ?thesis
    using url0_valid b c r temp_dir_cleanup [OF url0_valid b c, of w0]
    by (simp add: w0_def)
qed

text \<open>
  The claim as it was stated fails when the removal itself fails: the exception of
  \<open>shutil.rmtree\<close> is caught and logged, and the directory is still there when the
  command returns.
\<close>

theorem temp_dir_left_behind:
  "(sublist (u ''twitter.com'') url0 \<or> sublist (u ''x.com'') url0) \<and>
   response_defer env_rmtree_fails = None \<and> mkdtemp env_rmtree_fails = Inr dir0 \<and>
   fst (replace_twitter env_rmtree_fails url0 w0) = Inr () \<and>
   rmtree_calls (snd (replace_twitter env_rmtree_fails url0 w0)) = [dir0] \<and>
   dir0 \<in> tmpdirs (snd (replace_twitter env_rmtree_fails url0 w0))"
proof -
  have b: "response_defer env_rmtree_fails = None" and c: "mkdtemp env_rmtree_fails = Inr dir0"
    and r: "rmtree env_rmtree_fails dir0 \<noteq> None"
    by (simp_all add: env_rmtree_fails_def env0_def dir0_def)
  show ?thesis
    using url0_valid b c r replace_twitter_cleanup [OF url0_valid b c, of w0]
    by (simp add: w0_def)
qed

text \<open>
  C3.  The ceiling is \<open>50 * 1024 * 1024\<close> bytes and the test is \<open>file_size > max_size\<close>.
  After a successful fetch, a file whose size is at most the ceiling (the ceiling
  itself included) goes to the upload: once the file is opened, \<open>followup.send\<close> is
  called with the embed and the file, and when that call succeeds it is the one
  message of the invocation.  A file over the ceiling (one byte is enough) is never
  passed to an upload: the first message is the ephemeral text that the video is too
  large.
\<close>

theorem size_limit_check:
  assumes "sublist (u ''twitter.com'') url \<or> sublist (u ''x.com'') url"
      and "response_defer e = None"
      and "mkdtemp e = Inr d"
      and "download_twitter_video e url d (w\<lparr>deferred := True, tmpdirs := insert d (tmpdirs w)\<rparr>) =
             (Inr vd, w')"
      and "vd ''error'' = None" and "vd ''file_path'' = Some p" and "stat e p = Inr sz"
  shows "max_size = 52428800 \<and>
     (sz \<le> max_size \<and> open_rb e p = None \<longrightarrow>
        uploads (snd (replace_twitter e url w)) =
          uploads w @ [(build_embed e vd sz, path_name e p)] \<and>
        (followup_send e (length (sent w)) = None \<longrightarrow>
           sent (snd (replace_twitter e url w)) =
             sent w @ [(Upload (build_embed e vd sz) (path_name e p), True)])) \<and>
     (max_size < sz \<longrightarrow>
        uploads (snd (replace_twitter e url w)) = uploads w \<and>
        sent (snd (replace_twitter e url w)) =
          sent w @ (Text (too_large_text e sz) True, followup_send e (length (sent w)) = None) #
            (case followup_send e (length (sent w)) of
               None \<Rightarrow> []
             | Some x \<Rightarrow>
                 [(Text (unexpected_error_text x) True,
                   followup_send e (Suc (length (sent w))) = None)]))"
proof (intro conjI impI, goal_cases)
  case 1
  show ?case by (simp add: max_size_def)
next
  case 2
  then show ?case by (simp add: replace_twitter_uploads [OF assms])
next
  case 3
  then show ?case by (simp add: replace_twitter_delivered [OF assms])
next
  case 4
  then show ?case by (simp add: replace_twitter_uploads [OF assms])
next
  case 5
  then show ?case by (rule replace_twitter_too_large [OF assms])
qed

lemma sample_download_record:
  assumes "re_word e = re_word env0" and "re_digit e = re_digit env0"
      and "create_subprocess_exec e = create_subprocess_exec env0"
      and "communicate e = communicate env0"
      and "glob e = glob env0" and "fetch_stat e = fetch_stat env0"
  shows "download_twitter_video e url0 dir0 w = (Inr sample_record, w\<lparr>child := ChildExited 0\<rparr>)"
proof -
  have c: "communicate e = Inr (0, Inr sample_stdout, Inr [])"
    by (simp add: assms(4) env0_def)
  show ?thesis
    using sample_download [OF assms(1,2,3) c split_sample assms(5,6), of w]
    by (simp add: strip_samples sample_record_def)
qed

lemma sample_record_fields:
  "sample_record ''error'' = None"
  "sample_record ''file_path'' = Some (dir0 @ u ''/123456.mp4'')"
  by (simp_all add: sample_record_def)

theorem size_limit_check_witness:
  "(sublist (u ''twitter.com'') url0 \<or> sublist (u ''x.com'') url0) \<and>
   response_defer env_at_limit = None \<and> mkdtemp env_at_limit = Inr dir0 \<and>
   download_twitter_video env_at_limit url0 dir0 w_ready =
     (Inr sample_record, w_ready\<lparr>child := ChildExited 0\<rparr>) \<and>
   sample_record ''error'' = None \<and>
   sample_record ''file_path'' = Some (dir0 @ u ''/123456.mp4'') \<and>
   stat env_at_limit (dir0 @ u ''/123456.mp4'') = Inr max_size \<and>
   open_rb env_at_limit (dir0 @ u ''/123456.mp4'') = None \<and>
   followup_send env_at_limit (length (sent w0)) = None \<and>
   sent (snd (replace_twitter env_at_limit url0 w0)) =
     [(Upload (build_embed env_at_limit sample_record max_size) (u ''123456.mp4''), True)] \<and>
   response_defer env_over_limit = None \<and> mkdtemp env_over_limit = Inr dir0 \<and>
   download_twitter_video env_over_limit url0 dir0 w_ready =
     (Inr sample_record, w_ready\<lparr>child := ChildExited 0\<rparr>) \<and>
   stat env_over_limit (dir0 @ u ''/123456.mp4'') = Inr (max_size + 1) \<and>
   max_size < max_size + 1 \<and>
   uploads (snd (replace_twitter env_over_limit url0 w0)) = [] \<and>
   sent (snd (replace_twitter env_over_limit url0 w0)) =
     [(Text (too_large_text env_over_limit (max_size + 1)) True, True)]"
proof -
  have b: "response_defer env_at_limit = None" and c: "mkdtemp env_at_limit = Inr dir0"
    and st: "stat env_at_limit (dir0 @ u ''/123456.mp4'') = Inr max_size"
    and op: "open_rb env_at_limit (dir0 @ u ''/123456.mp4'') = None"
    and fo: "followup_send env_at_limit (length (sent w0)) = None"
    and pn: "path_name env_at_limit = path_name env0"
    by (simp_all add: env_at_limit_def env0_def dir0_def)
  have dl: "download_twitter_video env_at_limit url0 dir0 w =
     (Inr sample_record, w\<lparr>child := ChildExited 0\<rparr>)" for w
    by (rule sample_download_record) (simp_all add: env_at_limit_def)
  have dl': "download_twitter_video env_at_limit url0 dir0
       (w0\<lparr>deferred := True, tmpdirs := insert dir0 (tmpdirs w0)\<rparr>) =
     (Inr sample_record, w_ready\<lparr>child := ChildExited 0\<rparr>)"
    by (simp add: dl w_ready_def)
  have r1: "sent (snd (replace_twitter env_at_limit url0 w0)) =
     [(Upload (build_embed env_at_limit sample_record max_size) (u ''123456.mp4''), True)]"
    using size_limit_check [OF url0_valid b c dl' sample_record_fields st] op fo
    by (simp add: pn path_name_sample) (simp add: w0_def)
  have b2: "response_defer env_over_limit = None" and c2: "mkdtemp env_over_limit = Inr dir0"
    and st2: "stat env_over_limit (dir0 @ u ''/123456.mp4'') = Inr (max_size + 1)"
    and fo2: "followup_send env_over_limit (length (sent w0)) = None"
    by (simp_all add: env_over_limit_def env0_def dir0_def)
  have dl2: "download_twitter_video env_over_limit url0 dir0 w =
     (Inr sample_record, w\<lparr>child := ChildExited 0\<rparr>)" for w
    by (rule sample_download_record) (simp_all add: env_over_limit_def)
  have dl2': "download_twitter_video env_over_limit url0 dir0
       (w0\<lparr>deferred := True, tmpdirs := insert dir0 (tmpdirs w0)\<rparr>) =
     (Inr sample_record, w_ready\<lparr>child := ChildExited 0\<rparr>)"
    by (simp add: dl2 w_ready_def)
  have r2: "uploads (snd (replace_twitter env_over_limit url0 w0)) = [] \<and>
     sent (snd (replace_twitter env_over_limit url0 w0)) =
       [(Text (too_large_text env_over_limit (max_size + 1)) True, True)]"
    using size_limit_check [OF url0_valid b2 c2 dl2' sample_record_fields st2] fo2
    by (simp add: w0_def uploads_def)
  show ?thesis
    using url0_valid b c dl [of w_ready] sample_record_fields st op fo r1 b2 c2 dl2 [of w_ready]
      st2 r2
    by simp
qed

lemma shown_author_eq:
  "shown_author vd =
     (let name = strip (get_default vd ''uploader'' []);
          handle = strip (get_default vd ''uploader_id'' []);
          shown = (if name = [] then u ''Desconocido'' else name)
      in if handle = [] then Some (shown, None)
         else Some (shown @ u '' (@'' @ handle @ u '')'',
                    Some (u ''https://unavatar.io/x/'' @ handle)))"
  by (simp add: shown_author_def or_else_def Let_def u_def)

lemma re_sub_wrap_nonempty: "s \<noteq> [] \<Longrightarrow> re_sub_wrap s \<noteq> []"
  by (cases s) (auto split: option.splits)

lemma shown_description_eq:
  "shown_description vd =
     (let de = strip (get_default vd ''description'' [])
      in if de = [] then u ''Video de X'' else suppress_url_previews (take 280 de))"
proof -
  have t: "(if de \<noteq> [] \<and> 280 < length de then take 280 de else de) = take 280 de"
    for de :: str
    by simp
  have n: "suppress_url_previews (take 280 de) \<noteq> []" if "de \<noteq> []" for de
    using that by (simp add: suppress_url_previews_def re_sub_wrap_nonempty)
  show ?thesis
    unfolding shown_description_def Let_def t
    using n by (simp add: or_else_def)
qed

text \<open>
  C6 (as amended).  In the embed of the upload after a successful fetch, the
  author's name is the uploader's display name, and the fixed name
  \<open>Desconocido\<close> exactly when the display name is empty, whatever the handle.
  When the handle is not empty, the name is followed by \<open>(@handle)\<close> and the avatar
  is looked up by the handle; when it is empty, the name stands alone.
\<close>

theorem author_line:
  assumes "sublist (u ''twitter.com'') url \<or> sublist (u ''x.com'') url"
      and "response_defer e = None"
      and "mkdtemp e = Inr d"
      and "download_twitter_video e url d (w\<lparr>deferred := True, tmpdirs := insert d (tmpdirs w)\<rparr>) =
             (Inr vd, w')"
      and "vd ''error'' = None" and "vd ''file_path'' = Some p" and "stat e p = Inr sz"
      and "sz \<le> max_size" and "open_rb e p = None"
  shows "uploads (snd (replace_twitter e url w)) =
       uploads w @ [(build_embed e vd sz, path_name e p)] \<and>
     author (build_embed e vd sz) =
       (let name = strip (get_default vd ''uploader'' []);
            handle = strip (get_default vd ''uploader_id'' []);
            shown = (if name = [] then u ''Desconocido'' else name)
        in if handle = [] then Some (shown, None)
           else Some (shown @ u '' (@'' @ handle @ u '')'',
                      Some (u ''https://unavatar.io/x/'' @ handle)))"
proof
  show "uploads (snd (replace_twitter e url w)) =
      uploads w @ [(build_embed e vd sz, path_name e p)]"
    using assms(8,9) by (simp add: replace_twitter_uploads [OF assms(1-7)])
  have "author (build_embed e vd sz) = shown_author vd"
    by (simp add: build_embed_def)
  then show "author (build_embed e vd sz) =
       (let name = strip (get_default vd ''uploader'' []);
            handle = strip (get_default vd ''uploader_id'' []);
            shown = (if name = [] then u ''Desconocido'' else name)
        in if handle = [] then Some (shown, None)
           else Some (shown @ u '' (@'' @ handle @ u '')'',
                      Some (u ''https://unavatar.io/x/'' @ handle)))"
    by (simp only: shown_author_eq)
qed

text \<open>
  C7 (as amended).  In the embed of the upload after a successful fetch, when the
  fetched description is not empty, the description shown is
  \<open>suppress_url_previews\<close>, applied once, of the first 280 characters of the
  description; when it is empty, the fixed text \<open>Video de X\<close> is shown.
\<close>

theorem description_line:
  assumes "sublist (u ''twitter.com'') url \<or> sublist (u ''x.com'') url"
      and "response_defer e = None"
      and "mkdtemp e = Inr d"
      and "download_twitter_video e url d (w\<lparr>deferred := True, tmpdirs := insert d (tmpdirs w)\<rparr>) =
             (Inr vd, w')"
      and "vd ''error'' = None" and "vd ''file_path'' = Some p" and "stat e p = Inr sz"
      and "sz \<le> max_size" and "open_rb e p = None"
  shows "uploads (snd (replace_twitter e url w)) =
       uploads w @ [(build_embed e vd sz, path_name e p)] \<and>
     description (build_embed e vd sz) =
       (let de = strip (get_default vd ''description'' [])
        in if de = [] then u ''Video de X'' else suppress_url_previews (take 280 de)) \<and>
     length (take 280 (strip (get_default vd ''description'' []))) \<le> 280"
proof (intro conjI)
  show "uploads (snd (replace_twitter e url w)) =
      uploads w @ [(build_embed e vd sz, path_name e p)]"
    using assms(8,9) by (simp add: replace_twitter_uploads [OF assms(1-7)])
  have "description (build_embed e vd sz) = shown_description vd"
    by (simp add: build_embed_def)
  then show "description (build_embed e vd sz) =
       (let de = strip (get_default vd ''description'' [])
        in if de = [] then u ''Video de X'' else suppress_url_previews (take 280 de))"
    by (simp only: shown_description_eq)
  show "length (take 280 (strip (get_default vd ''description'' []))) \<le> 280"
    by simp
qed

lemma sample_env_run:
  assumes "re_word e = re_word env0" and "re_digit e = re_digit env0"
      and "create_subprocess_exec e = create_subprocess_exec env0"
      and "communicate e = Inr (0, Inr out, Inr [])"
      and "split sep (strip out) = [v, ti, th, up, ui, de, ud]"
      and "glob e = glob env0" and "fetch_stat e = fetch_stat env0"
      and "response_defer e = None" and "mkdtemp e = Inr dir0"
      and "stat e = stat env0" and "open_rb e = open_rb env0" and "path_name e = path_name env0"
  shows "uploads (snd (replace_twitter e url0 w0)) =
     [(build_embed e
         [''file_path'' \<mapsto> dir0 @ u ''/123456.mp4'', ''title'' \<mapsto> strip ti,
          ''thumbnail'' \<mapsto> strip th, ''uploader'' \<mapsto> strip up, ''uploader_id'' \<mapsto> strip ui,
          ''description'' \<mapsto> strip de, ''upload_date'' \<mapsto> strip ud] 3145728,
       u ''123456.mp4'')]"
proof -
  let ?vd = "[''file_path'' \<mapsto> dir0 @ u ''/123456.mp4'', ''title'' \<mapsto> strip ti,
          ''thumbnail'' \<mapsto> strip th, ''uploader'' \<mapsto> strip up, ''uploader_id'' \<mapsto> strip ui,
          ''description'' \<mapsto> strip de, ''upload_date'' \<mapsto> strip ud]"
  have st: "stat e (dir0 @ u ''/123456.mp4'') = Inr 3145728"
    and op: "open_rb e (dir0 @ u ''/123456.mp4'') = None"
    by (simp_all add: assms(10,11) env0_def)
  have f: "?vd ''error'' = None" "?vd ''file_path'' = Some (dir0 @ u ''/123456.mp4'')"
    by simp_all
  show ?thesis
    using replace_twitter_uploads [OF url0_valid assms(8,9)
        sample_download [OF assms(1-7)] f st, of w0] op
    by (simp add: max_size_def assms(12) path_name_sample) (simp add: uploads_def w0_def)
qed

lemma split_no_uploader:
  "split sep (strip stdout_no_uploader) =
     [u ''https://video.twimg.com/v.mp4'', u ''A title'', u ''https://pbs.twimg.com/t.jpg'',
      [], u ''ana_x'', u ''look https://t.co/abc now'', u ''20240101'']"
  by (simp add: stdout_no_uploader_def sep_def strip_def isspace_def u_def)

lemma split_no_description:
  "split sep (strip stdout_no_description) =
     [u ''https://video.twimg.com/v.mp4'', u ''A title'', u ''https://pbs.twimg.com/t.jpg'',
      u ''Ana'', u ''ana_x'', [], u ''20240101'']"
  by (simp add: stdout_no_description_def sep_def strip_def isspace_def u_def)

text \<open>
  The claim as it was stated fails: with an empty display name and the handle
  \<open>ana_x\<close>, the name falls back although the handle is not empty.
\<close>

theorem author_fallback_with_handle:
  "communicate env_no_uploader = Inr (0, Inr stdout_no_uploader, Inr []) \<and>
   split sep (strip stdout_no_uploader) =
     [u ''https://video.twimg.com/v.mp4'', u ''A title'', u ''https://pbs.twimg.com/t.jpg'',
      [], u ''ana_x'', u ''look https://t.co/abc now'', u ''20240101''] \<and>
   map (\<lambda>x. author (fst x)) (uploads (snd (replace_twitter env_no_uploader url0 w0))) =
     [Some (u ''Desconocido (@ana_x)'', Some (u ''https://unavatar.io/x/ana_x''))]"
proof -
  have c: "communicate env_no_uploader = Inr (0, Inr stdout_no_uploader, Inr [])"
    by (simp add: env_no_uploader_def)
  have "uploads (snd (replace_twitter env_no_uploader url0 w0)) =
     [(build_embed env_no_uploader
         [''file_path'' \<mapsto> dir0 @ u ''/123456.mp4'', ''title'' \<mapsto> strip (u ''A title''),
          ''thumbnail'' \<mapsto> strip (u ''https://pbs.twimg.com/t.jpg''), ''uploader'' \<mapsto> strip [],
          ''uploader_id'' \<mapsto> strip (u ''ana_x''),
          ''description'' \<mapsto> strip (u ''look https://t.co/abc now''),
          ''upload_date'' \<mapsto> strip (u ''20240101'')] 3145728,
       u ''123456.mp4'')]"
    by (rule sample_env_run [OF _ _ _ c split_no_uploader])
      (simp_all add: env_no_uploader_def env0_def dir0_def)
  then have "map (\<lambda>x. author (fst x)) (uploads (snd (replace_twitter env_no_uploader url0 w0))) =
     [Some (u ''Desconocido (@ana_x)'', Some (u ''https://unavatar.io/x/ana_x''))]"
    by (simp add: build_embed_def shown_author_eq get_default_def strip_samples Let_def)
      (simp add: u_def)
  then show ?thesis using c split_no_uploader by simp
qed

text \<open>
  The claim as it was stated fails on an empty description: the embed shows the
  placeholder, not the (empty) result of the suppressor.
\<close>

theorem placeholder_description:
  "communicate env_no_description = Inr (0, Inr stdout_no_description, Inr []) \<and>
   split sep (strip stdout_no_description) =
     [u ''https://video.twimg.com/v.mp4'', u ''A title'', u ''https://pbs.twimg.com/t.jpg'',
      u ''Ana'', u ''ana_x'', [], u ''20240101''] \<and>
   map (\<lambda>x. description (fst x)) (uploads (snd (replace_twitter env_no_description url0 w0))) =
     [u ''Video de X''] \<and>
   suppress_url_previews (take 280 []) = [] \<and>
   u ''Video de X'' \<noteq> suppress_url_previews (take 280 [])"
proof -
  have c: "communicate env_no_description = Inr (0, Inr stdout_no_description, Inr [])"
    by (simp add: env_no_description_def)
  have "uploads (snd (replace_twitter env_no_description url0 w0)) =
     [(build_embed env_no_description
         [''file_path'' \<mapsto> dir0 @ u ''/123456.mp4'', ''title'' \<mapsto> strip (u ''A title''),
          ''thumbnail'' \<mapsto> strip (u ''https://pbs.twimg.com/t.jpg''),
          ''uploader'' \<mapsto> strip (u ''Ana''), ''uploader_id'' \<mapsto> strip (u ''ana_x''),
          ''description'' \<mapsto> strip [], ''upload_date'' \<mapsto> strip (u ''20240101'')] 3145728,
       u ''123456.mp4'')]"
    by (rule sample_env_run [OF _ _ _ c split_no_description])
      (simp_all add: env_no_description_def env0_def dir0_def)
  then have "map (\<lambda>x. description (fst x))
       (uploads (snd (replace_twitter env_no_description url0 w0))) = [u ''Video de X'']"
    by (simp add: build_embed_def shown_description_eq get_default_def strip_samples Let_def)
  then show ?thesis
    using c split_no_description by (simp add: suppress_url_previews_def u_def)
qed

lemma env0_run:
  "response_defer env0 = None" "mkdtemp env0 = Inr dir0"
  "download_twitter_video env0 url0 dir0
     (w0\<lparr>deferred := True, tmpdirs := insert dir0 (tmpdirs w0)\<rparr>) =
     (Inr sample_record, w_ready\<lparr>child := ChildExited 0\<rparr>)"
  "stat env0 (dir0 @ u ''/123456.mp4'') = Inr 3145728"
  "(3145728::nat) \<le> max_size"
  "open_rb env0 (dir0 @ u ''/123456.mp4'') = None"
proof -
  show "download_twitter_video env0 url0 dir0
     (w0\<lparr>deferred := True, tmpdirs := insert dir0 (tmpdirs w0)\<rparr>) =
     (Inr sample_record, w_ready\<lparr>child := ChildExited 0\<rparr>)"
    by (simp add: sample_download_record w_ready_def)
qed (simp_all add: env0_def dir0_def max_size_def)

theorem author_line_witness:
  "(sublist (u ''twitter.com'') url0 \<or> sublist (u ''x.com'') url0) \<and>
   response_defer env0 = None \<and> mkdtemp env0 = Inr dir0 \<and>
   download_twitter_video env0 url0 dir0 w_ready =
     (Inr sample_record, w_ready\<lparr>child := ChildExited 0\<rparr>) \<and>
   sample_record ''error'' = None \<and>
   sample_record ''file_path'' = Some (dir0 @ u ''/123456.mp4'') \<and>
   stat env0 (dir0 @ u ''/123456.mp4'') = Inr 3145728 \<and>
   (3145728::nat) \<le> max_size \<and>
   open_rb env0 (dir0 @ u ''/123456.mp4'') = None \<and>
   uploads (snd (replace_twitter env0 url0 w0)) =
     [(build_embed env0 sample_record 3145728, u ''123456.mp4'')] \<and>
   author (build_embed env0 sample_record 3145728) =
     Some (u ''Ana (@ana_x)'', Some (u ''https://unavatar.io/x/ana_x''))"
proof -
  have g: "strip (get_default sample_record ''uploader'' []) = u ''Ana''"
    "strip (get_default sample_record ''uploader_id'' []) = u ''ana_x''"
    by (simp_all add: get_default_def sample_record_def strip_samples)
  have n: "u ''Ana'' \<noteq> []" "u ''ana_x'' \<noteq> []"
    "u ''Ana'' @ u '' (@'' @ u ''ana_x'' @ u '')'' = u ''Ana (@ana_x)''"
    "u ''https://unavatar.io/x/'' @ u ''ana_x'' = u ''https://unavatar.io/x/ana_x''"
    by (simp_all add: u_def)
  have r: "uploads (snd (replace_twitter env0 url0 w0)) =
       [(build_embed env0 sample_record 3145728, u ''123456.mp4'')] \<and>
     author (build_embed env0 sample_record 3145728) =
       Some (u ''Ana (@ana_x)'', Some (u ''https://unavatar.io/x/ana_x''))"
    using author_line [OF url0_valid env0_run(1,2,3) sample_record_fields env0_run(4,5,6)]
    by (simp add: g n Let_def path_name_sample) (simp add: uploads_def w0_def)
  show ?thesis
    using url0_valid env0_run sample_record_fields r by (simp add: w_ready_def)
qed

theorem description_line_witness:
  "(sublist (u ''twitter.com'') url0 \<or> sublist (u ''x.com'') url0) \<and>
   response_defer env0 = None \<and> mkdtemp env0 = Inr dir0 \<and>
   download_twitter_video env0 url0 dir0 w_ready =
     (Inr sample_record, w_ready\<lparr>child := ChildExited 0\<rparr>) \<and>
   sample_record ''error'' = None \<and>
   sample_record ''file_path'' = Some (dir0 @ u ''/123456.mp4'') \<and>
   stat env0 (dir0 @ u ''/123456.mp4'') = Inr 3145728 \<and>
   (3145728::nat) \<le> max_size \<and>
   open_rb env0 (dir0 @ u ''/123456.mp4'') = None \<and>
   uploads (snd (replace_twitter env0 url0 w0)) =
     [(build_embed env0 sample_record 3145728, u ''123456.mp4'')] \<and>
   description (build_embed env0 sample_record 3145728) = u ''look <https://t.co/abc> now''"
proof -
  have g: "strip (get_default sample_record ''description'' []) = u ''look https://t.co/abc now''"
    by (simp add: get_default_def sample_record_def strip_samples)
  have n: "u ''look https://t.co/abc now'' \<noteq> []"
    "suppress_url_previews (take 280 (u ''look https://t.co/abc now'')) =
       u ''look <https://t.co/abc> now''"
    by (simp_all add: suppress_url_previews_def u_def match_url_def scheme_len_def url_char_def
        isspace_def)
  have r: "uploads (snd (replace_twitter env0 url0 w0)) =
       [(build_embed env0 sample_record 3145728, u ''123456.mp4'')] \<and>
     description (build_embed env0 sample_record 3145728) = u ''look <https://t.co/abc> now''"
    using description_line [OF url0_valid env0_run(1,2,3) sample_record_fields env0_run(4,5,6)]
    by (simp add: g n Let_def path_name_sample) (simp add: uploads_def w0_def)
  show ?thesis
    using url0_valid env0_run sample_record_fields r by (simp add: w_ready_def)
qed

end
